theory Spec2Isabelle
  imports Main
begin

section \<open>Preliminaries: errors, text and integers as Python has them\<close>

text \<open>
  Every operation of the program is modelled as a function from the world (the files it
  touches, the clock and the random source it reads) to a result and the world it leaves
  behind. The result is a sum: \<open>Inl\<close> carries the exception that the Python code
  raises, \<open>Inr\<close> the value it returns. The world is returned in both cases, because
  an exception does not undo the writes made before it.
\<close>

datatype error =
    ValueError
  | FileNotFoundError
  | IndexError
  | LibraryError string

type_synonym bytes = string

text \<open>\<open>str(n)\<close> for a Python int: decimal digits, a minus sign for negatives.\<close>

definition digit_char :: "nat \<Rightarrow> char" where
  "digit_char d = ''0123456789'' ! d"

function str_nat :: "nat \<Rightarrow> string" where
  "str_nat n = (if n < 10 then [digit_char n] else str_nat (n div 10) @ [digit_char (n mod 10)])"
  by pat_completeness auto
termination
  by (relation "measure id") auto

declare str_nat.simps [simp del]

definition py_str :: "int \<Rightarrow> string" where
  "py_str i = (if i < 0 then CHR ''-'' # str_nat (nat (- i)) else str_nat (nat i))"

text \<open>
  \<open>int(s.strip())\<close>: surrounding white space is dropped, then an optional sign and a
  non-empty run of decimal digits, in which single underscores may separate digits.
  Anything else raises \<open>ValueError\<close> (here \<open>None\<close>). Characters are bytes, so
  only the ASCII digits and the ASCII white space of \<open>str.isspace\<close> occur.
\<close>

definition is_space :: "char \<Rightarrow> bool" where
  "is_space c = (let n = (of_char c :: nat) in (9 \<le> n \<and> n \<le> 13) \<or> (28 \<le> n \<and> n \<le> 32))"

definition strip :: "string \<Rightarrow> string" where
  "strip s = rev (dropWhile is_space (rev (dropWhile is_space s)))"

definition digit_val :: "char \<Rightarrow> nat option" where
  "digit_val c = (let n = (of_char c :: nat) in if 48 \<le> n \<and> n \<le> 57 then Some (n - 48) else None)"

fun py_digits :: "nat \<Rightarrow> bool \<Rightarrow> string \<Rightarrow> nat option" where
  "py_digits acc after_digit [] = (if after_digit then Some acc else None)"
| "py_digits acc after_digit (c # cs) =
     (if c = CHR ''_'' then (if after_digit then py_digits acc False cs else None)
      else case digit_val c of
             None \<Rightarrow> None
           | Some d \<Rightarrow> py_digits (10 * acc + d) True cs)"

definition py_int :: "string \<Rightarrow> int option" where
  "py_int s =
     (case strip s of
        [] \<Rightarrow> None
      | c # cs \<Rightarrow>
          if c = CHR ''-'' then map_option (\<lambda>n. - int n) (py_digits 0 False cs)
          else if c = CHR ''+'' then map_option int (py_digits 0 False cs)
          else map_option int (py_digits 0 False (c # cs)))"

section \<open>X.509 objects as the cryptography library exposes them\<close>

text \<open>
  Times are whole seconds since the epoch, the resolution at which a certificate
  stores its validity window. A key pair is identified by the random material it was
  generated from; the public key is the part of it a certificate carries.
\<close>

type_synonym time = int

definition days :: "int \<Rightarrow> int" where
  "days n = n * 86400"

datatype private_key = RSAPrivateKey (public_exponent: nat) (key_size: nat) (key_material: nat)

datatype public_key = RSAPublicKey nat nat nat

fun public_key_of :: "private_key \<Rightarrow> public_key" where
  "public_key_of (RSAPrivateKey e bits m) = RSAPublicKey e bits m"

datatype name_oid =
    COUNTRY_NAME
  | STATE_OR_PROVINCE_NAME
  | LOCALITY_NAME
  | ORGANIZATION_NAME
  | ORGANIZATIONAL_UNIT_NAME
  | COMMON_NAME
  | EMAIL_ADDRESS

type_synonym x509_name = "(name_oid \<times> string) list"

record key_usage =
  digital_signature :: bool
  content_commitment :: bool
  key_encipherment :: bool
  data_encipherment :: bool
  key_agreement :: bool
  key_cert_sign :: bool
  crl_sign :: bool
  encipher_only :: bool
  decipher_only :: bool

datatype extended_key_usage_oid = CODE_SIGNING | EMAIL_PROTECTION | CLIENT_AUTH

datatype extension =
    BasicConstraints bool "nat option"
  | KeyUsage key_usage
  | ExtendedKeyUsage "extended_key_usage_oid list"
  | SubjectAlternativeName "string list"
  | SubjectKeyIdentifier public_key
  | AuthorityKeyIdentifier public_key
  | CRLDistributionPoints "string list"
  | AuthorityInformationAccess "string list"

datatype hash_algorithm = SHA256

text \<open>
  A certificate as built by \<open>x509.CertificateBuilder\<close>: the extensions in the order
  they were added, each with its critical flag. \<open>signed_with\<close> is the public half of
  the key passed to \<open>sign\<close>: the key under which the certificate's signature verifies.
\<close>

record certificate =
  subject :: x509_name
  issuer :: x509_name
  cert_public_key :: public_key
  serial_number :: int
  not_valid_before :: time
  not_valid_after :: time
  extensions :: "(extension \<times> bool) list"
  signed_with :: public_key
  signature_hash :: hash_algorithm

record revoked_certificate =
  revoked_serial :: int
  revocation_date :: time

record crl =
  crl_issuer :: x509_name
  last_update :: time
  next_update :: time
  revoked :: "revoked_certificate list"
  crl_signed_with :: public_key

text \<open>
  The builders of the X.509 library refuse a serial number that is not positive or
  that needs 160 bits or more (\<open>ValueError\<close>).
\<close>

definition x509_serial_ok :: "int \<Rightarrow> bool" where
  "x509_serial_ok s = (0 < s \<and> s < 2 ^ 159)"

section \<open>Signature dictionaries\<close>

text \<open>
  The parameter blocks passed to the signing library are Python dicts with string keys.
  A dict is kept as the list of its items in insertion order; the keys of every dict
  built below are distinct, so the list is the dict. \<open>map_of\<close> looks a key up.
\<close>

datatype manual_item =
    fill_colour int int int
  | text_box string string int int int int int bool string string

datatype dval =
    IntV int
  | StrV string
  | BoolV bool
  | BoxV int int int int
  | ManualV "manual_item list"
  | StrListV "string list"

type_synonym dict = "(string \<times> dval) list"

text \<open>
  One call of \<open>endesive_cms.sign\<close>: the six arguments it was given, and what came
  back (the bytes returned, or the exception raised).
\<close>

record cms_call =
  call_data :: bytes
  call_dict :: dict
  call_key :: private_key
  call_cert :: certificate
  call_chain :: "certificate list"
  call_hash :: string
  call_result :: "error + bytes"

text \<open>
  One call of pyHanko's \<open>signers.sign_pdf\<close>: the document bytes behind the writer,
  the keyword arguments of the metadata as a dict, the signer, the text of the stamp
  style if one was given, the \<open>certify\<close> argument, and what came back (the bytes of
  the whole signed document, or the exception raised).
\<close>

record pyhanko_call =
  ph_data :: bytes
  ph_meta :: dict
  ph_signer :: "private_key \<times> certificate \<times> certificate list"
  ph_stamp_text :: "string option"
  ph_certify :: bool
  ph_result :: "error + bytes"

section \<open>The world: files, clock, random source\<close>

text \<open>
  A file holds what was last written to it. \<open>CertPem\<close>, \<open>KeyPem\<close> (with the
  password it is encrypted under), \<open>CrlPem\<close> and \<open>P12\<close> are the serialisations the
  program writes; \<open>Text\<close> is any other content. Reading a file as a kind it does not
  hold fails as the parser of that kind fails.
\<close>

datatype file_content =
    CertPem certificate
  | KeyPem private_key bytes
  | CrlPem crl
  | P12 string private_key certificate "certificate list" bytes
  | Text string

text \<open>
  The paths of \<open>PDFSigningCA.__init__\<close>, and the two files
  \<open>create_pdf_signing_certificate\<close> writes beside the CA directory. \<open>None\<close> is a
  path at which nothing exists. \<open>signing_cert_p12\<close> is also the bundle the signing
  engine loads (\<open>CERTIFICATE_P12_PATH\<close>). \<open>pdf_files\<close> are the documents, by
  path. The clock and the random source are read by position: \<open>ticks\<close> and
  \<open>draws\<close> count the readings made so far. The three flags say which of the PKCS#12
  back ends the installation has. \<open>cms_calls\<close> and \<open>pyhanko_calls\<close> list the
  calls made to the two signing libraries so far, oldest first; nothing in the program
  reads them.
\<close>

record world =
  ca_cert_path :: "file_content option"
  ca_key_path :: "file_content option"
  crl_path :: "file_content option"
  serial_file :: "file_content option"
  signing_cert_p12 :: "file_content option"
  ca_bundle_pem :: "file_content option"
  pdf_files :: "string \<rightharpoonup> bytes"
  cms_calls :: "cms_call list"
  pyhanko_calls :: "pyhanko_call list"
  clock :: "nat \<Rightarrow> time"
  ticks :: nat
  entropy :: "nat \<Rightarrow> nat"
  draws :: nat
  pkcs12_available :: bool
  openssl_works :: bool
  pyopenssl_available :: bool

type_synonym 'a outcome = "(error + 'a) \<times> world"

definition now :: "world \<Rightarrow> time \<times> world" where
  "now w = (clock w (ticks w), w\<lparr>ticks := Suc (ticks w)\<rparr>)"

definition rsa_generate_private_key :: "nat \<Rightarrow> nat \<Rightarrow> world \<Rightarrow> private_key \<times> world" where
  "rsa_generate_private_key e bits w =
     (RSAPrivateKey e bits (entropy w (draws w)), w\<lparr>draws := Suc (draws w)\<rparr>)"

definition ca_password :: bytes where
  "ca_password = ''ca_password_2024''"

definition p12_password :: bytes where
  "p12_password = ''digital_workspace_2024''"

section \<open>PDFSigningCA\<close>

definition ca_subject :: x509_name where
  "ca_subject =
     [(COUNTRY_NAME, ''IN''),
      (STATE_OR_PROVINCE_NAME, ''Tamil Nadu''),
      (LOCALITY_NAME, ''Chennai''),
      (ORGANIZATION_NAME, ''FTE Digital Workspace CA''),
      (ORGANIZATIONAL_UNIT_NAME, ''Certificate Authority''),
      (COMMON_NAME, ''FTE PDF Signing Root CA''),
      (EMAIL_ADDRESS, ''ca@fte.com'')]"

definition ca_key_usage :: key_usage where
  "ca_key_usage =
     \<lparr>digital_signature = True, content_commitment = False, key_encipherment = False,
      data_encipherment = False, key_agreement = False, key_cert_sign = True,
      crl_sign = True, encipher_only = False, decipher_only = False\<rparr>"

text \<open>
  \<open>create_ca_certificate\<close>: a fresh 4096-bit key, the self-signed certificate with
  serial 1, then the three writes: certificate, key, and the serial file set to \<open>2\<close>.
  The clock is read twice, once for each end of the validity window.
\<close>

definition create_ca_certificate :: "world \<Rightarrow> (certificate \<times> private_key) \<times> world" where
  "create_ca_certificate w =
     (let (ca_private_key, w1) = rsa_generate_private_key 65537 4096 w;
          (t_before, w2) = now w1;
          (t_after, w3) = now w2;
          ca_cert =
            \<lparr>subject = ca_subject,
             issuer = ca_subject,
             cert_public_key = public_key_of ca_private_key,
             serial_number = 1,
             not_valid_before = t_before,
             not_valid_after = t_after + days (365 * 10),
             extensions =
               [(BasicConstraints True (Some 0), True),
                (KeyUsage ca_key_usage, True),
                (SubjectKeyIdentifier (public_key_of ca_private_key), False),
                (AuthorityKeyIdentifier (public_key_of ca_private_key), False)],
             signed_with = public_key_of ca_private_key,
             signature_hash = SHA256\<rparr>;
          w4 = w3\<lparr>ca_cert_path := Some (CertPem ca_cert)\<rparr>;
          w5 = w4\<lparr>ca_key_path := Some (KeyPem ca_private_key ca_password)\<rparr>;
          w6 = w5\<lparr>serial_file := Some (Text ''2'')\<rparr>
      in ((ca_cert, ca_private_key), w6))"

text \<open>
  \<open>load_ca_certificate\<close>: unless both the certificate file and the key file exist, a
  new CA is created. Otherwise the two files are parsed; a file that does not hold a
  certificate, or a key under the CA password, raises.
\<close>

definition load_ca_certificate :: "world \<Rightarrow> (certificate \<times> private_key) outcome" where
  "load_ca_certificate w =
     (if ca_cert_path w = None \<or> ca_key_path w = None then
        (let (r, w') = create_ca_certificate w in (Inr r, w'))
      else
        (case ca_cert_path w of
           Some (CertPem ca_cert) \<Rightarrow>
             (case ca_key_path w of
                Some (KeyPem ca_private_key pw) \<Rightarrow>
                  if pw = ca_password then (Inr (ca_cert, ca_private_key), w)
                  else (Inl ValueError, w)
              | _ \<Rightarrow> (Inl ValueError, w))
         | _ \<Rightarrow> (Inl ValueError, w)))"

text \<open>
  \<open>get_next_serial_number\<close>: 2 when there is no serial file, else the integer the
  file holds; the file is rewritten with the successor before the serial is returned.
\<close>

definition get_next_serial_number :: "world \<Rightarrow> int outcome" where
  "get_next_serial_number w =
     (case (case serial_file w of
              None \<Rightarrow> Some 2
            | Some (Text s) \<Rightarrow> py_int s
            | Some _ \<Rightarrow> None) of
        None \<Rightarrow> (Inl ValueError, w)
      | Some serial \<Rightarrow> (Inr serial, w\<lparr>serial_file := Some (Text (py_str (serial + 1)))\<rparr>))"

text \<open>
  \<open>create_pdf_signing_certificate\<close>, in the order of the source: load (or create)
  the CA, generate the leaf key, allocate the serial, build and sign the certificate,
  bundle it as PKCS#12, write the bundle and the CA certificate. The certificate
  builder checks the serial before the clock is read for the validity window. The
  bundle comes from the library's PKCS#12 module when it is there; otherwise from the
  \<open>openssl\<close> command; when that command fails, from pyOpenSSL (a bundle without
  friendly name and without the CA certificate); when that is not installed either, an
  exception. The returned pair is the two paths written.
\<close>

definition cert_subject :: "string \<Rightarrow> string \<Rightarrow> x509_name" where
  "cert_subject common_name email =
     [(COUNTRY_NAME, ''IN''),
      (STATE_OR_PROVINCE_NAME, ''Tamil Nadu''),
      (LOCALITY_NAME, ''Chennai''),
      (ORGANIZATION_NAME, ''PERSONAL''),
      (ORGANIZATIONAL_UNIT_NAME, ''Individual''),
      (COMMON_NAME, common_name),
      (EMAIL_ADDRESS, email)]"

definition cert_key_usage :: key_usage where
  "cert_key_usage =
     \<lparr>digital_signature = True, content_commitment = True, key_encipherment = False,
      data_encipherment = False, key_agreement = False, key_cert_sign = False,
      crl_sign = False, encipher_only = False, decipher_only = False\<rparr>"

definition create_simple_pkcs12 :: "world \<Rightarrow> private_key \<Rightarrow> certificate \<Rightarrow> error + file_content" where
  "create_simple_pkcs12 w key cert =
     (if pyopenssl_available w then Inr (P12 [] key cert [] p12_password)
      else Inl (LibraryError ''Cannot create PKCS#12 bundle - missing dependencies''))"

definition create_pkcs12_with_openssl ::
  "world \<Rightarrow> private_key \<Rightarrow> certificate \<Rightarrow> certificate \<Rightarrow> string \<Rightarrow> error + file_content" where
  "create_pkcs12_with_openssl w key cert ca_cert common_name =
     (if openssl_works w then
        Inr (P12 (common_name @ '' PDF Signing Certificate'') key cert [ca_cert] p12_password)
      else create_simple_pkcs12 w key cert)"

definition create_pkcs12 ::
  "world \<Rightarrow> string \<Rightarrow> private_key \<Rightarrow> certificate \<Rightarrow> certificate \<Rightarrow> error + file_content" where
  "create_pkcs12 w common_name key cert ca_cert =
     (if pkcs12_available w then
        Inr (P12 (common_name @ '' PDF Signing Certificate'') key cert [ca_cert] p12_password)
      else create_pkcs12_with_openssl w key cert ca_cert common_name)"

definition create_pdf_signing_certificate ::
  "string \<Rightarrow> string \<Rightarrow> world \<Rightarrow> (string \<times> string) outcome" where
  "create_pdf_signing_certificate common_name email w =
     (case load_ca_certificate w of
        (Inl e, w1) \<Rightarrow> (Inl e, w1)
      | (Inr (ca_cert, ca_private_key), w1) \<Rightarrow>
          (let (cert_private_key, w2) = rsa_generate_private_key 65537 2048 w1 in
           case get_next_serial_number w2 of
             (Inl e, w3) \<Rightarrow> (Inl e, w3)
           | (Inr serial, w3) \<Rightarrow>
               if \<not> x509_serial_ok serial then (Inl ValueError, w3)
               else
                 (let (t_before, w4) = now w3;
                      (t_after, w5) = now w4;
                      cert =
                        \<lparr>subject = cert_subject common_name email,
                         issuer = subject ca_cert,
                         cert_public_key = public_key_of cert_private_key,
                         serial_number = serial,
                         not_valid_before = t_before,
                         not_valid_after = t_after + days (365 * 3),
                         extensions =
                           [(BasicConstraints False None, True),
                            (KeyUsage cert_key_usage, True),
                            (ExtendedKeyUsage [CODE_SIGNING, EMAIL_PROTECTION, CLIENT_AUTH], True),
                            (SubjectAlternativeName [email], False),
                            (SubjectKeyIdentifier (public_key_of cert_private_key), False),
                            (AuthorityKeyIdentifier (public_key_of ca_private_key), False),
                            (CRLDistributionPoints [''http://localhost:8000/pdf-signature/crl/''], False),
                            (AuthorityInformationAccess
                               [''http://localhost:8000/pdf-signature/ca-cert/''], False)],
                         signed_with = public_key_of ca_private_key,
                         signature_hash = SHA256\<rparr>
                  in case create_pkcs12 w5 common_name cert_private_key cert ca_cert of
                       Inl e \<Rightarrow> (Inl e, w5)
                     | Inr p12_data \<Rightarrow>
                         (let w6 = w5\<lparr>signing_cert_p12 := Some p12_data\<rparr>;
                              w7 = w6\<lparr>ca_bundle_pem := Some (CertPem ca_cert)\<rparr>
                          in (Inr (''signing_cert.p12'', ''ca_bundle.pem''), w7)))))"

text \<open>
  \<open>create_crl\<close>: the CA is loaded (or created), the clock is read for
  \<open>last_update\<close> and again for \<open>next_update\<close>, then every serial of the argument
  gets an entry dated by a clock reading of its own. No record of the serials issued is
  consulted; there is none. The list is written only after the loop.
\<close>

fun revoke_all :: "int list \<Rightarrow> revoked_certificate list \<Rightarrow> world \<Rightarrow> revoked_certificate list outcome" where
  "revoke_all [] acc w = (Inr acc, w)"
| "revoke_all (serial # rest) acc w =
     (if \<not> x509_serial_ok serial then (Inl ValueError, w)
      else
        (let (t, w') = now w
         in revoke_all rest (acc @ [\<lparr>revoked_serial = serial, revocation_date = t\<rparr>]) w'))"

definition create_crl :: "int list option \<Rightarrow> world \<Rightarrow> string outcome" where
  "create_crl revoked_serials_arg w =
     (case load_ca_certificate w of
        (Inl e, w1) \<Rightarrow> (Inl e, w1)
      | (Inr (ca_cert, ca_private_key), w1) \<Rightarrow>
          (let revoked_serials = (case revoked_serials_arg of None \<Rightarrow> [] | Some l \<Rightarrow> l);
               (t_last, w2) = now w1;
               (t_next, w3) = now w2
           in case revoke_all revoked_serials [] w3 of
                (Inl e, w4) \<Rightarrow> (Inl e, w4)
              | (Inr entries, w4) \<Rightarrow>
                  (let c = \<lparr>crl_issuer = subject ca_cert,
                            last_update = t_last,
                            next_update = t_next + days 30,
                            revoked = entries,
                            crl_signed_with = public_key_of ca_private_key\<rparr>
                   in (Inr ''ca_crl.pem'', w4\<lparr>crl_path := Some (CrlPem c)\<rparr>))))"

text \<open>
  The calls a client of \<open>PDFSigningCA\<close> can make, and the world a sequence of them
  leaves behind, whether each call returns or raises.
\<close>

datatype ca_call =
    LoadCa
  | CreateCert string string
  | CreateCrl "int list option"
  | NextSerial

fun do_call :: "ca_call \<Rightarrow> world \<Rightarrow> world" where
  "do_call LoadCa w = snd (load_ca_certificate w)"
| "do_call (CreateCert common_name email) w = snd (create_pdf_signing_certificate common_name email w)"
| "do_call (CreateCrl revoked_serials) w = snd (create_crl revoked_serials w)"
| "do_call NextSerial w = snd (get_next_serial_number w)"

fun do_calls :: "ca_call list \<Rightarrow> world \<Rightarrow> world" where
  "do_calls [] w = w"
| "do_calls (c # cs) w = do_calls cs (do_call c w)"

text \<open>The serial of the certificate in the bundle last written, if there is one.\<close>

definition issued_serial :: "world \<Rightarrow> int option" where
  "issued_serial w =
     (case signing_cert_p12 w of
        Some (P12 name key cert cas pw) \<Rightarrow> Some (serial_number cert)
      | _ \<Rightarrow> None)"

text \<open>The empty CA directory, with a given clock and random source.\<close>

definition empty_world :: "(nat \<Rightarrow> time) \<Rightarrow> (nat \<Rightarrow> nat) \<Rightarrow> world" where
  "empty_world clk rnd =
     \<lparr>ca_cert_path = None, ca_key_path = None, crl_path = None, serial_file = None,
      signing_cert_p12 = None, ca_bundle_pem = None,
      pdf_files = Map.empty, cms_calls = [], pyhanko_calls = [],
      clock = clk, ticks = 0, entropy = rnd, draws = 0,
      pkcs12_available = True, openssl_works = True, pyopenssl_available = True\<rparr>"

section \<open>Dates as the program formats them\<close>

text \<open>
  \<open>datetime.now(tz)\<close> read at clock value \<open>t\<close> and seen at a fixed offset (in
  seconds) from UTC: the calendar fields of the proleptic Gregorian calendar.
  \<open>civil_from_days\<close> turns a day count since 1970-01-01 into year, month and day.
\<close>

record datetime =
  dt_year :: int
  dt_month :: int
  dt_day :: int
  dt_hour :: int
  dt_minute :: int
  dt_second :: int

definition civil_from_days :: "int \<Rightarrow> int \<times> int \<times> int" where
  "civil_from_days z =
     (let z' = z + 719468;
          era = z' div 146097;
          doe = z' mod 146097;
          yoe = (doe - doe div 1460 + doe div 36524 - doe div 146096) div 365;
          doy = doe - (365 * yoe + yoe div 4 - yoe div 100);
          mp = (5 * doy + 2) div 153;
          d = doy - (153 * mp + 2) div 5 + 1;
          m = (if mp < 10 then mp + 3 else mp - 9);
          y = yoe + era * 400
      in (if m \<le> 2 then y + 1 else y, m, d))"

definition astimezone :: "int \<Rightarrow> time \<Rightarrow> datetime" where
  "astimezone offset t =
     (let local = t + offset;
          (y, m, d) = civil_from_days (local div 86400);
          s = local mod 86400
      in \<lparr>dt_year = y, dt_month = m, dt_day = d,
          dt_hour = s div 3600, dt_minute = (s mod 3600) div 60, dt_second = s mod 60\<rparr>)"

definition pad2 :: "int \<Rightarrow> string" where
  "pad2 n = (if n < 10 then CHR ''0'' # py_str n else py_str n)"

text \<open>
  The three formats of the source: \<open>D:%Y%m%d%H%M%S\<close> followed by a fixed offset
  suffix, \<open>%d/%m/%Y\<close>, and \<open>%H:%M GMT +5:30\<close>.
\<close>

definition strftime_pdf_date :: "datetime \<Rightarrow> string \<Rightarrow> string" where
  "strftime_pdf_date dt suffix =
     ''D:'' @ py_str (dt_year dt) @ pad2 (dt_month dt) @ pad2 (dt_day dt)
       @ pad2 (dt_hour dt) @ pad2 (dt_minute dt) @ pad2 (dt_second dt) @ suffix"

definition strftime_date :: "datetime \<Rightarrow> string" where
  "strftime_date dt = pad2 (dt_day dt) @ ''/'' @ pad2 (dt_month dt) @ ''/'' @ py_str (dt_year dt)"

definition strftime_time :: "datetime \<Rightarrow> string" where
  "strftime_time dt = pad2 (dt_hour dt) @ '':'' @ pad2 (dt_minute dt) @ '' GMT +5:30''"

definition utc_suffix :: string where
  "utc_suffix = ''+00'' @ [CHR 0x27] @ ''00'' @ [CHR 0x27]"

definition chennai_suffix :: string where
  "chennai_suffix = ''+05'' @ [CHR 0x27] @ ''30'' @ [CHR 0x27]"

section \<open>The signing libraries\<close>

text \<open>
  The signing library, the PDF reader and the verifier are not part of the program;
  they are parameters, and a call of one is determined by its arguments. \<open>cms_sign\<close> is \<open>endesive.pdf.cms.sign\<close>: from the document bytes, the
  signature dict, key, certificate, chain and hash name it returns the bytes of the
  incremental update to append, or raises. \<open>pdf_page_count\<close> is
  \<open>len(PdfReader(path).pages)\<close> on a file with the given bytes.
  \<open>endesive_verify\<close> is \<open>endesive.pdf.verify.verify\<close>: from the document bytes and
  the trusted certificates it returns one tuple per signature. The program expects
  tuples of five components (name, certificate bytes, signed data, signature ok, hash
  ok); \<open>RawOther n\<close> is a tuple of another length \<open>n\<close>.
  \<open>pyhanko_sign_pdf\<close> is \<open>signers.sign_pdf(...).getvalue()\<close>: the bytes of the whole
  signed document. \<open>pyhanko_num_pages\<close> is the \<open>/Count\<close> of the \<open>/Pages\<close> node
  as \<open>PdfFileReader\<close> finds it, or the \<open>ValueError\<close> raised when it is not there.
  \<open>pyhanko_embedded_signatures\<close> is \<open>signers.embedded_signatures\<close> on a file with
  the given bytes: the embedded signature objects, each with its field name.
  \<open>validate_pdf_signature\<close> is pyHanko's function of that name as the program calls
  it, with the signature object as its only argument (no validation context): the
  status object, of which the program reads six attributes, or the exception raised.
\<close>

datatype raw_result =
    Raw5 bytes "bytes option" bytes bool bool
  | RawOther nat

datatype embedded_signature = EmbeddedPdfSignature (field_name: string) (sig_contents: bytes)

record validation_status =
  vs_valid :: bool
  vs_trusted :: bool
  vs_modification_level :: string
  vs_summary :: string
  vs_errors :: "string list"
  vs_warnings :: "string list"

record libs =
  endesive_available :: bool
  tsa_url :: "string option"
  cms_sign :: "bytes \<Rightarrow> dict \<Rightarrow> private_key \<Rightarrow> certificate \<Rightarrow> certificate list \<Rightarrow> string \<Rightarrow> error + bytes"
  pdf_page_count :: "bytes \<Rightarrow> error + nat"
  endesive_verify :: "bytes \<Rightarrow> certificate list \<Rightarrow> error + raw_result list"
  pyhanko_available :: bool
  pyhanko_sign_pdf ::
    "bytes \<Rightarrow> dict \<Rightarrow> private_key \<times> certificate \<times> certificate list \<Rightarrow> string option \<Rightarrow> bool
       \<Rightarrow> error + bytes"
  pyhanko_num_pages :: "bytes \<Rightarrow> error + nat"
  pyhanko_embedded_signatures :: "bytes \<Rightarrow> error + embedded_signature list"
  validate_pdf_signature :: "embedded_signature \<Rightarrow> error + validation_status"

text \<open>A call of the signing library, entered in the log of calls.\<close>

definition call_cms_sign ::
  "libs \<Rightarrow> bytes \<Rightarrow> dict \<Rightarrow> private_key \<Rightarrow> certificate \<Rightarrow> certificate list \<Rightarrow> string \<Rightarrow> world \<Rightarrow> bytes outcome" where
  "call_cms_sign env data dct key cert chain hash w =
     (let r = cms_sign env data dct key cert chain hash
      in (r, w\<lparr>cms_calls := cms_calls w @
                [\<lparr>call_data = data, call_dict = dct, call_key = key, call_cert = cert,
                  call_chain = chain, call_hash = hash, call_result = r\<rparr>]\<rparr>))"

section \<open>utils.py: certificate loading and signature appearance\<close>

text \<open>
  \<open>load_certificate_data\<close>: the bundle at \<open>CERTIFICATE_P12_PATH\<close>, opened with the
  configured password (the default of the source). Nothing but the file's presence and
  the password is checked; the validity window of the certificate is not looked at.
\<close>

definition load_certificate_data :: "world \<Rightarrow> error + (private_key \<times> certificate \<times> certificate list)" where
  "load_certificate_data w =
     (case signing_cert_p12 w of
        None \<Rightarrow> Inl FileNotFoundError
      | Some (P12 name key cert cas pw) \<Rightarrow>
          if pw = p12_password then Inr (key, cert, cas) else Inl ValueError
      | Some _ \<Rightarrow> Inl ValueError)"

text \<open>
  The signer info is a dict with the seven keys of \<open>DEFAULT_SIGNER_INFO\<close>; every key is
  always present, so it is kept as a record and \<open>.get(key, default)\<close> is the field.
  \<open>get_signer_info_from_cert\<close> starts from the defaults; when the subject has no common
  name the \<open>IndexError\<close> is caught and the defaults are returned.
\<close>

record signer_info =
  info_common_name :: string
  info_organization :: string
  info_organizational_unit :: string
  info_country :: string
  info_state :: string
  info_locality :: string
  info_email :: string

definition DEFAULT_SIGNER_INFO :: signer_info where
  "DEFAULT_SIGNER_INFO =
     \<lparr>info_common_name = ''ARUL M'', info_organization = ''PERSONAL'',
      info_organizational_unit = ''Individual'', info_country = ''IN'',
      info_state = ''Tamil Nadu'', info_locality = ''Chennai'',
      info_email = ''m.arul@fte.com''\<rparr>"

definition get_attributes_for_oid :: "x509_name \<Rightarrow> name_oid \<Rightarrow> string list" where
  "get_attributes_for_oid name oid = map snd (filter (\<lambda>a. fst a = oid) name)"

definition attr_or :: "x509_name \<Rightarrow> name_oid \<Rightarrow> string \<Rightarrow> string" where
  "attr_or name oid old = (case get_attributes_for_oid name oid of [] \<Rightarrow> old | v # _ \<Rightarrow> v)"

definition get_signer_info_from_cert :: "certificate \<Rightarrow> signer_info" where
  "get_signer_info_from_cert cert =
     (let info = DEFAULT_SIGNER_INFO; s = subject cert in
      case get_attributes_for_oid s COMMON_NAME of
        [] \<Rightarrow> info
      | cn # _ \<Rightarrow>
          \<lparr>info_common_name = cn,
           info_organization = attr_or s ORGANIZATION_NAME (info_organization info),
           info_organizational_unit = attr_or s ORGANIZATIONAL_UNIT_NAME (info_organizational_unit info),
           info_country = attr_or s COUNTRY_NAME (info_country info),
           info_state = attr_or s STATE_OR_PROVINCE_NAME (info_state info),
           info_locality = attr_or s LOCALITY_NAME (info_locality info),
           info_email = attr_or s EMAIL_ADDRESS (info_email info)\<rparr>)"

record SignatureAppearance =
  signer_info :: signer_info
  box :: "int \<times> int \<times> int \<times> int"
  font_size_normal :: int
  font_size_large :: int
  font_name :: string
  font_name_fallback :: string

definition new_SignatureAppearance :: "signer_info \<Rightarrow> SignatureAppearance" where
  "new_SignatureAppearance info =
     \<lparr>signer_info = info, box = (450, 50, 580, 120), font_size_normal = 10,
      font_size_large = 12, font_name = ''Helvetica'', font_name_fallback = ''Times-Roman''\<rparr>"

definition get_compatible_font :: "SignatureAppearance \<Rightarrow> string" where
  "get_compatible_font self = font_name self"

text \<open>\<open>str.upper\<close> on the ASCII letters.\<close>

definition upper_char :: "char \<Rightarrow> char" where
  "upper_char c = (let n = (of_char c :: nat) in if 97 \<le> n \<and> n \<le> 122 then char_of (n - 32) else c)"

definition upper :: "string \<Rightarrow> string" where
  "upper s = map upper_char s"

text \<open>
  \<open>build_appearance_dict\<close> reads the clock once; the date line, the time line and the
  \<open>signingdate\<close> entry are all formatted from that one reading, seen at +05:30.
\<close>

definition build_appearance_dict :: "SignatureAppearance \<Rightarrow> nat \<Rightarrow> world \<Rightarrow> dict \<times> world" where
  "build_appearance_dict self page_num w =
     (let (current_time, w') = now w;
          chennai_time = astimezone (5 * 3600 + 30 * 60) current_time;
          date_str = strftime_date chennai_time;
          time_str = strftime_time chennai_time;
          signer_name = upper (info_common_name (signer_info self));
          location = info_locality (signer_info self);
          (x1, y1, x2, y2) = box self;
          line_spacing = 15;
          x_offset = 5;
          y_line4 = 10;
          y_line3 = y_line4 + line_spacing;
          y_line2 = y_line3 + line_spacing;
          y_line1 = y_line2 + line_spacing;
          width = x2 - x1 - x_offset * 2
      in ([(''location'', StrV location),
           (''contact'', StrV (info_email (signer_info self))),
           (''signingdate'', StrV (strftime_pdf_date chennai_time chennai_suffix)),
           (''signature_manual'', ManualV
              [fill_colour 0 0 0,
               text_box signer_name (get_compatible_font self) x_offset y_line1
                 width 15 (font_size_large self) True ''left'' ''top'',
               text_box (''Date: '' @ date_str) (get_compatible_font self) x_offset y_line2
                 width 12 (font_size_normal self) True ''left'' ''top'',
               text_box (''Time: '' @ time_str) (get_compatible_font self) x_offset y_line3
                 width 12 (font_size_normal self) True ''left'' ''top'',
               text_box (''Location: '' @ location) (get_compatible_font self) x_offset y_line4
                 width 12 (font_size_normal self) True ''left'' ''top''])],
          w'))"

section \<open>utils.py: the signing engine\<close>

definition tsa_items :: "libs \<Rightarrow> dict" where
  "tsa_items env =
     (case tsa_url env of
        None \<Rightarrow> []
      | Some u \<Rightarrow> if u = [] then [] else [(''tsaurl'', StrV u)])"

definition certify_dct :: "libs \<Rightarrow> signer_info \<Rightarrow> time \<Rightarrow> dict" where
  "certify_dct env info t =
     [(''sigflags'', IntV 3),
      (''sigpage'', IntV 0),
      (''sigfield'', StrV ''CertificationSig''),
      (''auto_sigfield'', BoolV True),
      (''location'', StrV (info_locality info)),
      (''contact'', StrV (info_email info)),
      (''signingdate'', StrV (strftime_pdf_date (astimezone 0 t) utc_suffix)),
      (''certification_level'', IntV 1),
      (''subfilter'', StrV ''/adbe.pkcs7.detached''),
      (''docmdp'', IntV 1)] @ tsa_items env"

definition page_sig_dct :: "libs \<Rightarrow> SignatureAppearance \<Rightarrow> nat \<Rightarrow> dict \<Rightarrow> dict" where
  "page_sig_dct env appearance_config page_num appearance =
     [(''sigflags'', IntV 3),
      (''sigpage'', IntV (int page_num)),
      (''sigfield'', StrV (''ApprovalSignature_Page'' @ py_str (int page_num + 1))),
      (''auto_sigfield'', BoolV True),
      (''signaturebox'', (case box appearance_config of (x1, y1, x2, y2) \<Rightarrow> BoxV x1 y1 x2 y2)),
      (''subfilter'', StrV ''/adbe.pkcs7.detached'')] @ tsa_items env @ appearance"

text \<open>
  The loop over the pages. The temporary files of the source are written and read back
  within one iteration and removed with their directory when the function ends, so the
  file at \<open>current_pdf_path\<close> is kept as the value \<open>current\<close>: each iteration reads it,
  signs it, and the next current file is what was read followed by the bytes returned.
  A failing call ends the loop with its exception.
\<close>

fun approve_pages ::
  "libs \<Rightarrow> private_key \<Rightarrow> certificate \<Rightarrow> certificate list \<Rightarrow> SignatureAppearance
     \<Rightarrow> nat list \<Rightarrow> bytes \<Rightarrow> world \<Rightarrow> bytes outcome" where
  "approve_pages env key cert chain appearance_config [] current w = (Inr current, w)"
| "approve_pages env key cert chain appearance_config (page_num # rest) current w =
     (let pdf_data_page_in = current;
          (appearance, w1) = build_appearance_dict appearance_config page_num w;
          dct = page_sig_dct env appearance_config page_num appearance
      in case call_cms_sign env pdf_data_page_in dct key cert chain ''sha256'' w1 of
           (Inl e, w2) \<Rightarrow> (Inl e, w2)
         | (Inr page_signature_data, w2) \<Rightarrow>
             approve_pages env key cert chain appearance_config rest
               (pdf_data_page_in @ page_signature_data) w2)"

text \<open>
  The body of the \<open>try\<close> block up to the final move, the same in
  \<open>sign_pdf_multi_page_with_proper_mdp\<close> and in \<open>sign_pdf_multi_page\<close>: the
  certification dict (its date is a clock reading at offset 0), the input file, the
  certification signature, the page count of the certified file, the approval loop.
  It returns the bytes of the last temporary file.
\<close>

definition signing_steps ::
  "libs \<Rightarrow> private_key \<Rightarrow> certificate \<Rightarrow> certificate list \<Rightarrow> string \<Rightarrow> world \<Rightarrow> bytes outcome" where
  "signing_steps env key cert chain input_path w =
     (let info = get_signer_info_from_cert cert;
          appearance_config = new_SignatureAppearance info;
          (t, w1) = now w;
          dct = certify_dct env info t
      in case pdf_files w1 input_path of
           None \<Rightarrow> (Inl FileNotFoundError, w1)
         | Some pdf_data_in \<Rightarrow>
             (case call_cms_sign env pdf_data_in dct key cert chain ''sha256'' w1 of
                (Inl e, w2) \<Rightarrow> (Inl e, w2)
              | (Inr certify_signature_data, w2) \<Rightarrow>
                  (let certified = pdf_data_in @ certify_signature_data in
                   case pdf_page_count env certified of
                     Inl e \<Rightarrow> (Inl e, w2)
                   | Inr page_count \<Rightarrow>
                       approve_pages env key cert chain appearance_config
                         [0..<page_count] certified w2)))"

text \<open>
  \<open>sign_pdf_multi_page_with_proper_mdp\<close>: the library check and the certificate are
  before the \<open>try\<close>; on an exception inside it the exception is raised again and
  nothing outside the temporary directory has been written; on success the last
  temporary file is moved to the output path.
\<close>

definition sign_pdf_multi_page_with_proper_mdp :: "libs \<Rightarrow> string \<Rightarrow> string \<Rightarrow> world \<Rightarrow> string outcome" where
  "sign_pdf_multi_page_with_proper_mdp env input_path output_path w =
     (if \<not> endesive_available env then
        (Inl (LibraryError ''Endesive library is required for PDF signing.''), w)
      else
        case load_certificate_data w of
          Inl e \<Rightarrow> (Inl e, w)
        | Inr (private_key, certificate, ca_certificates) \<Rightarrow>
            (case signing_steps env private_key certificate ca_certificates input_path w of
               (Inl e, w') \<Rightarrow> (Inl e, w')
             | (Inr final, w') \<Rightarrow>
                 (Inr output_path, w'\<lparr>pdf_files := (pdf_files w')(output_path \<mapsto> final)\<rparr>)))"

text \<open>
  \<open>sign_pdf_multi_page\<close>: the same steps; its \<open>except\<close> block copies the original
  input to the output path when nothing exists there and the input exists, then raises
  the exception again.
\<close>

definition sign_pdf_multi_page :: "libs \<Rightarrow> string \<Rightarrow> string \<Rightarrow> world \<Rightarrow> string outcome" where
  "sign_pdf_multi_page env input_path output_path w =
     (if \<not> endesive_available env then
        (Inl (LibraryError ''Endesive library is required for PDF signing.''), w)
      else
        case load_certificate_data w of
          Inl e \<Rightarrow> (Inl e, w)
        | Inr (private_key, certificate, ca_certificates) \<Rightarrow>
            (case signing_steps env private_key certificate ca_certificates input_path w of
               (Inl e, w') \<Rightarrow>
                 (case pdf_files w' input_path of
                    Some original \<Rightarrow>
                      if pdf_files w' output_path = None
                      then (Inl e, w'\<lparr>pdf_files := (pdf_files w')(output_path \<mapsto> original)\<rparr>)
                      else (Inl e, w')
                  | None \<Rightarrow> (Inl e, w'))
             | (Inr final, w') \<Rightarrow>
                 (Inr output_path, w'\<lparr>pdf_files := (pdf_files w')(output_path \<mapsto> final)\<rparr>)))"

section \<open>pyhanko_signer.py: the pyHanko engine\<close>









section \<open>utils.py: verification\<close>




section \<open>pyhanko_signer.py: verification\<close>




section \<open>Reading the log of library calls\<close>

text \<open>
  \<open>incremental_chain start calls final\<close>: the first call was given \<open>start\<close>, every
  call returned bytes, every later call was given what the call before it was given
  followed by the bytes that call returned, and \<open>final\<close> is that for the last call.
\<close>

fun incremental_chain :: "bytes \<Rightarrow> cms_call list \<Rightarrow> bytes \<Rightarrow> bool" where
  "incremental_chain current [] final = (final = current)"
| "incremental_chain current (c # cs) final =
     (call_data c = current \<and>
      (case call_result c of
         Inl e \<Rightarrow> False
       | Inr signature_data \<Rightarrow> incremental_chain (current @ signature_data) cs final))"

definition dict_entries :: "string \<Rightarrow> cms_call list \<Rightarrow> dval option list" where
  "dict_entries k calls = map (\<lambda>c. map_of (call_dict c) k) calls"



section \<open>A small signing library for concrete runs\<close>

text \<open>
  A stand-in for the libraries, to run the engine on concrete documents. A page is a
  form feed. The bytes returned for a signature are its field name between \<open><\<close>
  and \<open>>\<close>; a field name with \<open><\<close> in it is refused. The verifier reads the
  signatures back from the end of the document and reports each as sound, in tuples
  of five components. Like the real signing library it does not look at the
  certificate's validity window; like the real call of the verifier it is given no
  revocation list. The pyHanko stand-ins list the same signatures and report each as
  valid and not trusted.
\<close>

definition toy_sign ::
  "bytes \<Rightarrow> dict \<Rightarrow> private_key \<Rightarrow> certificate \<Rightarrow> certificate list \<Rightarrow> string \<Rightarrow> error + bytes" where
  "toy_sign data dct key cert chain hash =
     (case map_of dct ''sigfield'' of
        Some (StrV name) \<Rightarrow>
          if CHR ''<'' \<in> set name then Inl ValueError
          else Inr (CHR ''<'' # name @ ''>'')
      | _ \<Rightarrow> Inl ValueError)"

definition toy_page_count :: "bytes \<Rightarrow> error + nat" where
  "toy_page_count data = Inr (length (filter (\<lambda>c. c = CHR 0x0C) data))"

function toy_names :: "bytes \<Rightarrow> bytes list" where
  "toy_names r =
     (case r of
        [] \<Rightarrow> []
      | c # rest \<Rightarrow>
          if c = CHR ''>'' then
            (case dropWhile (\<lambda>x. x \<noteq> CHR ''<'') rest of
               [] \<Rightarrow> []
             | b # earlier \<Rightarrow> toy_names earlier @ [rev (takeWhile (\<lambda>x. x \<noteq> CHR ''<'') rest)])
          else [])"
  by pat_completeness auto
termination
proof (relation "measure length")
  show "wf (measure length)" by simp
next
  fix r :: bytes and c rest b earlier
  assume "r = c # rest" "dropWhile (\<lambda>x. x \<noteq> CHR ''<'') rest = b # earlier"
  moreover have "length (dropWhile (\<lambda>x. x \<noteq> CHR ''<'') rest) \<le> length rest"
    by (rule length_dropWhile_le)
  ultimately show "(earlier, r) \<in> measure length" by simp
qed

declare toy_names.simps [simp del]

definition toy_verify :: "bytes \<Rightarrow> certificate list \<Rightarrow> error + raw_result list" where
  "toy_verify data trusted = Inr (map (\<lambda>n. Raw5 n None [] True True) (toy_names (rev data)))"

definition toy_pyhanko_sign_pdf ::
  "bytes \<Rightarrow> dict \<Rightarrow> private_key \<times> certificate \<times> certificate list \<Rightarrow> string option \<Rightarrow> bool
     \<Rightarrow> error + bytes" where
  "toy_pyhanko_sign_pdf data meta signer stamp certify =
     (case map_of meta ''field_name'' of
        Some (StrV name) \<Rightarrow>
          if CHR ''<'' \<in> set name then Inl ValueError
          else Inr (data @ CHR ''<'' # name @ ''>'')
      | _ \<Rightarrow> Inl ValueError)"

definition toy_embedded_signatures :: "bytes \<Rightarrow> error + embedded_signature list" where
  "toy_embedded_signatures data = Inr (map (\<lambda>n. EmbeddedPdfSignature n []) (toy_names (rev data)))"

definition toy_validate :: "embedded_signature \<Rightarrow> error + validation_status" where
  "toy_validate sig_obj =
     Inr \<lparr>vs_valid = True, vs_trusted = False, vs_modification_level = ''NONE'',
          vs_summary = ''INTACT:UNTRUSTED'', vs_errors = [], vs_warnings = []\<rparr>"

definition toy_libs :: libs where
  "toy_libs =
     \<lparr>endesive_available = True, tsa_url = None, cms_sign = toy_sign,
      pdf_page_count = toy_page_count, endesive_verify = toy_verify,
      pyhanko_available = True, pyhanko_sign_pdf = toy_pyhanko_sign_pdf,
      pyhanko_num_pages = toy_page_count,
      pyhanko_embedded_signatures = toy_embedded_signatures,
      validate_pdf_signature = toy_validate\<rparr>"

text \<open>
  The same libraries, except that the verifier answers each signature it finds with a
  tuple of three components instead of five.
\<close>

definition triple_verify :: "bytes \<Rightarrow> certificate list \<Rightarrow> error + raw_result list" where
  "triple_verify data trusted = Inr (map (\<lambda>n. RawOther 3) (toy_names (rev data)))"

definition triple_libs :: libs where
  "triple_libs = toy_libs\<lparr>endesive_verify := triple_verify\<rparr>"

text \<open>A clock and a random source for concrete runs.\<close>

definition some_clock :: "nat \<Rightarrow> time" where
  "some_clock n = 1750400040 + int n"

definition some_entropy :: "nat \<Rightarrow> nat" where
  "some_entropy n = 17 + 3 * n"

text \<open>
  A signing library that fails on the second page (page index 1) and otherwise is the
  small one.
\<close>

definition flaky_sign ::
  "bytes \<Rightarrow> dict \<Rightarrow> private_key \<Rightarrow> certificate \<Rightarrow> certificate list \<Rightarrow> string \<Rightarrow> error + bytes" where
  "flaky_sign data dct key cert chain hash =
     (if map_of dct ''sigpage'' = Some (IntV 1) \<and> map_of dct ''certification_level'' = None
      then Inl (LibraryError ''signing failed'')
      else toy_sign data dct key cert chain hash)"

definition flaky_libs :: libs where
  "flaky_libs = toy_libs\<lparr>cms_sign := flaky_sign\<rparr>"

text \<open>
  The scenario of the specification: a fresh root, one leaf certificate for
  \<open>TEST SIGNER\<close>, and an unsigned document of three pages at \<open>in.pdf\<close>. In
  \<open>expired_world\<close> the clock stands 4000 days later, past the end of the leaf
  certificate's three years.
\<close>

definition signing_world :: world where
  "signing_world =
     (snd (create_pdf_signing_certificate ''TEST SIGNER'' ''test.signer@fte.com''
        (empty_world some_clock some_entropy)))
       \<lparr>pdf_files := [''in.pdf'' \<mapsto> [CHR 0x0C, CHR 0x0C, CHR 0x0C]]\<rparr>"

definition expired_world :: world where
  "expired_world = signing_world\<lparr>clock := (\<lambda>n. some_clock n + days 4000)\<rparr>"



section \<open>Reading the log and the report against the libraries\<close>

text \<open>
  \<open>faithful\<close>: an entry of the call log records what the signing library returns
  for the arguments it records; \<open>ph_faithful\<close> is the same for a call of pyHanko.
  \<open>five_components\<close>: the name, the certificate bytes and the two flags of a tuple
  of five components, nothing for a tuple of another length. \<open>reported\<close>: what the
  report of the verifier is to hold for such a tuple, in the words of the docstring
  of \<open>verify_pdf_signature\<close>: the name as text, valid when signature and hash are
  both ok, and the four details.
\<close>

definition faithful :: "libs \<Rightarrow> cms_call \<Rightarrow> bool" where
  "faithful env c =
     (call_result c =
        cms_sign env (call_data c) (call_dict c) (call_key c) (call_cert c) (call_chain c) (call_hash c))"





section \<open>What a signature shows and what it is dated\<close>






text \<open>
  Two predicates on worlds used below: both CA files exist; and, beyond that, the serial
  file holds the decimal text of \<open>n\<close>.
\<close>

definition ca_exists :: "world \<Rightarrow> bool" where
  "ca_exists w = (ca_cert_path w \<noteq> None \<and> ca_key_path w \<noteq> None)"

definition ready :: "int \<Rightarrow> world \<Rightarrow> bool" where
  "ready n w = (ca_exists w \<and> serial_file w = Some (Text (py_str n)))"

section \<open>Properties of the certificate authority\<close>

lemma digit_cases: "d < 10 \<Longrightarrow> d \<in> {0, 1, 2, 3, 4, 5, 6, 7, 8, 9::nat}"
  by auto

lemma of_char_digit_char: "d < 10 \<Longrightarrow> (of_char (digit_char d) :: nat) = 48 + d"
  by (drule digit_cases) (auto simp: digit_char_def)

lemma digit_val_digit_char: "d < 10 \<Longrightarrow> digit_val (digit_char d) = Some d"
  by (simp add: digit_val_def of_char_digit_char)

lemma digit_char_not_special:
  assumes "d < 10"
  shows "digit_char d \<noteq> CHR ''_''" "digit_char d \<noteq> CHR ''-''" "digit_char d \<noteq> CHR ''+''"
    "\<not> is_space (digit_char d)"
proof -
  have e: "(of_char (digit_char d) :: nat) = 48 + d" using assms by (rule of_char_digit_char)
  show "digit_char d \<noteq> CHR ''_''" using e assms by auto
  show "digit_char d \<noteq> CHR ''-''" using e assms by auto
  show "digit_char d \<noteq> CHR ''+''" using e assms by auto
  show "\<not> is_space (digit_char d)" using e by (simp add: is_space_def)
qed

lemma py_digits_str_nat:
  "py_digits acc b (str_nat n @ rest) = py_digits (acc * 10 ^ length (str_nat n) + n) True rest"
proof (induction n arbitrary: acc b rest rule: str_nat.induct)
  case (1 n)
  show ?case
  proof (cases "n < 10")
    case True
    then show ?thesis
      by (subst (1 2) str_nat.simps) (simp add: digit_val_digit_char digit_char_not_special mult.commute)
  next
    case False
    have m: "n mod 10 < 10" by simp
    have "py_digits acc b (str_nat n @ rest)
        = py_digits acc b (str_nat (n div 10) @ (digit_char (n mod 10) # rest))"
      using False by (subst str_nat.simps) simp
    also have "\<dots> = py_digits (acc * 10 ^ length (str_nat (n div 10)) + n div 10) True
                      (digit_char (n mod 10) # rest)"
      using False by (rule "1.IH")
    also have "\<dots> = py_digits (10 * (acc * 10 ^ length (str_nat (n div 10)) + n div 10) + n mod 10)
                      True rest"
      using m by (simp add: digit_val_digit_char digit_char_not_special)
    also have "10 * (acc * 10 ^ length (str_nat (n div 10)) + n div 10) + n mod 10
             = acc * 10 ^ length (str_nat n) + n"
      using False by (subst (2) str_nat.simps) (simp add: algebra_simps)
    finally show ?thesis .
  qed
qed

lemma py_digits_str_nat_eq: "py_digits 0 False (str_nat n) = Some n"
  using py_digits_str_nat [of 0 False n "[]"] by simp

lemma str_nat_digits: "c \<in> set (str_nat n) \<Longrightarrow> \<exists>d<10. c = digit_char d"
proof (induction n rule: str_nat.induct)
  case (1 n)
  show ?case
  proof (cases "n < 10")
    case True
    with "1.prems" show ?thesis by (subst (asm) str_nat.simps) auto
  next
    case False
    from "1.prems" False have "c \<in> set (str_nat (n div 10)) \<or> c = digit_char (n mod 10)"
      by (subst (asm) str_nat.simps) auto
    then show ?thesis
    proof
      assume "c \<in> set (str_nat (n div 10))"
      with False "1.IH" show ?thesis by blast
    next
      assume "c = digit_char (n mod 10)"
      moreover have "n mod 10 < 10" by simp
      ultimately show ?thesis by blast
    qed
  qed
qed

lemma str_nat_nonempty: "str_nat n \<noteq> []"
  by (subst str_nat.simps) simp

lemma strip_no_space:
  assumes "xs \<noteq> []" "\<not> is_space (hd xs)" "\<not> is_space (last xs)"
  shows "strip xs = xs"
proof -
  from assms have a: "dropWhile is_space xs = xs" by (cases xs) auto
  from assms have "rev xs \<noteq> []" "\<not> is_space (hd (rev xs))" by (auto simp: hd_rev)
  then have "dropWhile is_space (rev xs) = rev xs" by (cases "rev xs") auto
  with a show ?thesis by (simp add: strip_def)
qed

lemma strip_str_nat: "strip (str_nat n) = str_nat n"
proof (rule strip_no_space)
  show "str_nat n \<noteq> []" by (rule str_nat_nonempty)
  have "hd (str_nat n) \<in> set (str_nat n)" "last (str_nat n) \<in> set (str_nat n)"
    using str_nat_nonempty by simp_all
  then show "\<not> is_space (hd (str_nat n))" "\<not> is_space (last (str_nat n))"
    by (auto dest!: str_nat_digits simp: digit_char_not_special(4))
qed

lemma py_int_py_str: "py_int (py_str i) = Some i"
proof (cases "i < 0")
  case True
  have ne: "str_nat (nat (- i)) \<noteq> []" by (rule str_nat_nonempty)
  have "last (str_nat (nat (- i))) \<in> set (str_nat (nat (- i)))" using ne by simp
  then have "\<not> is_space (last (str_nat (nat (- i))))"
    by (auto dest!: str_nat_digits simp: digit_char_not_special(4))
  moreover have "\<not> is_space CHR ''-''" by (simp add: is_space_def)
  ultimately have "strip (CHR ''-'' # str_nat (nat (- i))) = CHR ''-'' # str_nat (nat (- i))"
    using ne by (intro strip_no_space) simp_all
  with True show ?thesis
    by (simp add: py_int_def py_str_def py_digits_str_nat_eq)
next
  case False
  obtain c cs where s: "str_nat (nat i) = c # cs"
    using str_nat_nonempty [of "nat i"] by (cases "str_nat (nat i)") auto
  then have "c \<in> set (str_nat (nat i))" by simp
  then obtain d where "d < 10" "c = digit_char d" using str_nat_digits by blast
  then have c: "c \<noteq> CHR ''-''" "c \<noteq> CHR ''+''" using digit_char_not_special by simp_all
  have st: "strip (c # cs) = c # cs"
    using strip_str_nat [of "nat i"] by (simp only: s)
  have "py_int (c # cs) = map_option int (py_digits 0 False (c # cs))"
    unfolding py_int_def st using c by (simp del: py_digits.simps)
  then have "py_int (str_nat (nat i)) = map_option int (py_digits 0 False (str_nat (nat i)))"
    by (simp only: s)
  with False show ?thesis by (simp add: py_str_def py_digits_str_nat_eq)
qed

lemma py_str_2: "py_str 2 = ''2''"
  by (simp add: py_str_def str_nat.simps digit_char_def)

lemma py_int_2: "py_int ''2'' = Some 2"
  using py_int_py_str [of 2] by (simp only: py_str_2)

lemma load_existing_world: "ca_exists w \<Longrightarrow> snd (load_ca_certificate w) = w"
  by (auto simp: ca_exists_def load_ca_certificate_def split: option.splits file_content.splits)

lemma load_creates:
  "\<not> ca_exists w \<Longrightarrow> load_ca_certificate w = (Inr (fst (create_ca_certificate w)), snd (create_ca_certificate w))"
  by (auto simp: ca_exists_def load_ca_certificate_def split: prod.splits)

lemma create_ca_ready: "ready 2 (snd (create_ca_certificate w))"
  by (simp add: create_ca_certificate_def ready_def ca_exists_def py_str_2
      rsa_generate_private_key_def now_def Let_def)

lemma alloc_ready:
  "ready n w \<Longrightarrow> get_next_serial_number w = (Inr n, w\<lparr>serial_file := Some (Text (py_str (n + 1)))\<rparr>)"
  by (simp add: ready_def get_next_serial_number_def py_int_py_str)

lemma ready_update_serial: "ca_exists w \<Longrightarrow> ready m (w\<lparr>serial_file := Some (Text (py_str m))\<rparr>)"
  by (simp add: ready_def ca_exists_def)

lemma alloc_success:
  assumes "get_next_serial_number w = (Inr s, w')"
  shows "w' = w\<lparr>serial_file := Some (Text (py_str (s + 1)))\<rparr>"
  using assms by (auto simp: get_next_serial_number_def split: option.splits)

lemma alloc_fail:
  assumes "get_next_serial_number w = (Inl e, w')"
  shows "w' = w"
  using assms by (auto simp: get_next_serial_number_def split: option.splits)

lemma ready_keygen: "ready n w \<Longrightarrow> ready n (snd (rsa_generate_private_key e b w))"
  by (simp add: ready_def ca_exists_def rsa_generate_private_key_def)

lemma ca_exists_keygen: "ca_exists w \<Longrightarrow> ca_exists (snd (rsa_generate_private_key e b w))"
  by (simp add: ca_exists_def rsa_generate_private_key_def)

lemma ready_now: "ready n w \<Longrightarrow> ready n (snd (now w))"
  by (simp add: ready_def ca_exists_def now_def)

lemma ready_load: "ready n w \<Longrightarrow> snd (load_ca_certificate w) = w"
  by (simp add: ready_def load_existing_world)

lemma ca_exists_after_load: "fst (load_ca_certificate w) = Inr r \<Longrightarrow> ca_exists (snd (load_ca_certificate w))"
proof (cases "ca_exists w")
  case True
  then show ?thesis by (simp add: load_existing_world)
next
  case False
  have "ready 2 (snd (create_ca_certificate w))" by (rule create_ca_ready)
  with False show ?thesis by (simp add: load_creates ready_def)
qed

lemma create_pkcs12_serial:
  "create_pkcs12 w cn key cert ca_cert = Inr f \<Longrightarrow> \<exists>name cas. f = P12 name key cert cas p12_password"
  by (auto simp: create_pkcs12_def create_pkcs12_with_openssl_def create_simple_pkcs12_def
      split: if_splits)

lemma issue_success:
  assumes "create_pdf_signing_certificate cn em w = (Inr p, w')"
  shows "\<exists>s. issued_serial w' = Some s \<and> ready (s + 1) w' \<and> x509_serial_ok s
            \<and> (\<forall>n. ready n w \<longrightarrow> s = n)"
proof -
  obtain r1 w1 where l: "load_ca_certificate w = (r1, w1)" by (cases "load_ca_certificate w")
  with assms obtain ca_cert ca_key where r1: "r1 = Inr (ca_cert, ca_key)"
    by (cases r1) (auto simp: create_pdf_signing_certificate_def)
  from l r1 have ex1: "ca_exists w1" using ca_exists_after_load [of w] by simp
  obtain key w2 where k: "rsa_generate_private_key 65537 2048 w1 = (key, w2)"
    by (cases "rsa_generate_private_key 65537 2048 w1")
  then have ex2: "ca_exists w2" using ca_exists_keygen [OF ex1, of 65537 2048] by simp
  obtain r3 w3 where a: "get_next_serial_number w2 = (r3, w3)" by (cases "get_next_serial_number w2")
  with assms l r1 k obtain s where r3: "r3 = Inr s"
    by (cases r3) (auto simp: create_pdf_signing_certificate_def)
  from a r3 have w3: "w3 = w2\<lparr>serial_file := Some (Text (py_str (s + 1)))\<rparr>"
    by (simp add: alloc_success)
  then have rd3: "ready (s + 1) w3" using ex2 by (simp add: ready_update_serial)
  from assms l r1 k a r3 have ok: "x509_serial_ok s"
    by (auto simp: create_pdf_signing_certificate_def split: if_splits)
  from assms l r1 k a r3 ok obtain f cert where
    w': "w' = snd (now (snd (now w3)))\<lparr>signing_cert_p12 := Some f, ca_bundle_pem := Some (CertPem ca_cert)\<rparr>"
    and f: "create_pkcs12 (snd (now (snd (now w3)))) cn key cert ca_cert = Inr f"
    and c: "serial_number cert = s"
    by (auto simp: create_pdf_signing_certificate_def Let_def split: prod.splits sum.splits)
  from f obtain name cas where "f = P12 name key cert cas p12_password"
    using create_pkcs12_serial by blast
  with w' c have "issued_serial w' = Some s" by (simp add: issued_serial_def)
  moreover from rd3 w' have "ready (s + 1) w'"
    by (simp add: ready_def ca_exists_def now_def)
  moreover have "s = n" if "ready n w" for n
  proof -
    from that l have "w1 = w" using ready_load [of n w] by simp
    with that k have "ready n w2" using ready_keygen [of n w 65537 2048] by simp
    then show ?thesis using a r3 by (simp add: alloc_ready)
  qed
  ultimately show ?thesis using ok by blast
qed

lemma issue_keeps_ready:
  assumes "ready n w"
  shows "ready n (snd (create_pdf_signing_certificate cn em w))
       \<or> ready (n + 1) (snd (create_pdf_signing_certificate cn em w))"
proof -
  from assms have lw: "snd (load_ca_certificate w) = w" by (rule ready_load)
  obtain r1 where l: "load_ca_certificate w = (r1, w)" using lw by (cases "load_ca_certificate w") simp
  show ?thesis
  proof (cases r1)
    case (Inl e)
    with l assms show ?thesis by (simp add: create_pdf_signing_certificate_def)
  next
    case (Inr ck)
    obtain ca_cert ca_key where ck: "ck = (ca_cert, ca_key)" by (cases ck)
    obtain key w2 where k: "rsa_generate_private_key 65537 2048 w = (key, w2)"
      by (cases "rsa_generate_private_key 65537 2048 w")
    then have rd2: "ready n w2" using ready_keygen [OF assms, of 65537 2048] by simp
    then have a: "get_next_serial_number w2 = (Inr n, w2\<lparr>serial_file := Some (Text (py_str (n + 1)))\<rparr>)"
      by (rule alloc_ready)
    from rd2 have rd3: "ready (n + 1) (w2\<lparr>serial_file := Some (Text (py_str (n + 1)))\<rparr>)"
      by (simp add: ready_def ca_exists_def)
    then have "ready (n + 1) (snd (create_pdf_signing_certificate cn em w))"
      using l Inr ck k a
      by (auto simp: create_pdf_signing_certificate_def Let_def ready_def ca_exists_def now_def
          split: prod.splits sum.splits)
    then show ?thesis ..
  qed
qed

lemma revoke_all_ready: "ready n w \<Longrightarrow> ready n (snd (revoke_all l acc w))"
proof (induction l arbitrary: acc w)
  case Nil
  then show ?case by simp
next
  case (Cons a l)
  from Cons.prems have "ready n (snd (now w))" by (rule ready_now)
  then show ?case using Cons.prems Cons.IH by (simp add: split_beta)
qed

lemma crl_keeps_ready:
  assumes "ready n w"
  shows "ready n (snd (create_crl rs w))"
proof -
  from assms have lw: "snd (load_ca_certificate w) = w" by (rule ready_load)
  obtain r1 where l: "load_ca_certificate w = (r1, w)" using lw by (cases "load_ca_certificate w") simp
  have n2: "ready n (snd (now (snd (now w))))" using assms by (intro ready_now)
  show ?thesis
  proof (cases r1)
    case (Inl e)
    with l assms show ?thesis by (simp add: create_crl_def)
  next
    case (Inr ck)
    have "ready n (snd (revoke_all (case rs of None \<Rightarrow> [] | Some l \<Rightarrow> l) [] (snd (now (snd (now w))))))"
      using n2 by (rule revoke_all_ready)
    then show ?thesis using l Inr
      by (auto simp: create_crl_def Let_def split_beta ready_def ca_exists_def split: prod.splits sum.splits)
  qed
qed

lemma call_keeps_ready:
  assumes "ready n w"
  shows "\<exists>m\<ge>n. ready m (do_call c w)"
proof (cases c)
  case LoadCa
  with assms show ?thesis using ready_load by auto
next
  case (CreateCert cn em)
  from issue_keeps_ready [OF assms, of cn em]
  have "ready n (do_call c w) \<or> ready (n + 1) (do_call c w)" using CreateCert by simp
  then show ?thesis
  proof
    assume "ready n (do_call c w)"
    then show ?thesis by (intro exI [of _ n]) simp
  next
    assume "ready (n + 1) (do_call c w)"
    then show ?thesis by (intro exI [of _ "n + 1"]) simp
  qed
next
  case (CreateCrl rs)
  with crl_keeps_ready [OF assms, of rs] show ?thesis by auto
next
  case NextSerial
  from assms have "ready (n + 1) (snd (get_next_serial_number w))"
    by (simp add: alloc_ready ready_def ca_exists_def)
  with NextSerial show ?thesis by (intro exI [of _ "n + 1"]) simp
qed

lemma calls_keep_ready: "ready n w \<Longrightarrow> \<exists>m\<ge>n. ready m (do_calls cs w)"
proof (induction cs arbitrary: n w)
  case Nil
  then show ?case by auto
next
  case (Cons c cs)
  from call_keeps_ready [OF Cons.prems, of c] obtain m where m: "n \<le> m" "ready m (do_call c w)"
    by blast
  from Cons.IH [OF m(2)] obtain k where "m \<le> k" "ready k (do_calls cs (do_call c w))" by blast
  with m(1) show ?case by (intro exI [of _ k]) simp
qed

text \<open>
  Claim C1. Serial numbers are strictly increasing and never reused, and the counter is
  written before the serial is handed back. Take any successful issuance, then any
  sequence of calls to the CA (loads, further issuances that succeed or fail, CRL
  builds, direct calls of the allocator), then another successful issuance: the serial
  of the second certificate is greater than the serial of the first, and after each of
  the two the serial file holds the successor of the serial just issued. The world is
  the files only, so a restart of the process between two calls changes nothing.
\<close>

theorem serials_strictly_increase:
  assumes "create_pdf_signing_certificate cn1 em1 w = (Inr p1, w1)"
      and "create_pdf_signing_certificate cn2 em2 (do_calls cs w1) = (Inr p2, w2)"
  shows "\<exists>s1 s2. issued_serial w1 = Some s1 \<and> issued_serial w2 = Some s2 \<and> s1 < s2
           \<and> serial_file w1 = Some (Text (py_str (s1 + 1)))
           \<and> serial_file w2 = Some (Text (py_str (s2 + 1)))"
proof -
  from issue_success [OF assms(1)] obtain s1 where
    s1: "issued_serial w1 = Some s1" "ready (s1 + 1) w1" by blast
  from calls_keep_ready [OF s1(2), of cs] obtain m where
    m: "s1 + 1 \<le> m" "ready m (do_calls cs w1)" by blast
  from issue_success [OF assms(2)] obtain s2 where
    s2: "issued_serial w2 = Some s2" "ready (s2 + 1) w2" "\<forall>n. ready n (do_calls cs w1) \<longrightarrow> s2 = n"
    by blast
  from s2(3) m(2) have "s2 = m" by blast
  with m(1) have "s1 < s2" by simp
  with s1 s2 show ?thesis by (simp add: ready_def)
qed

lemma load_existing:
  assumes "ca_cert_path w = Some (CertPem c)" "ca_key_path w = Some (KeyPem k ca_password)"
  shows "load_ca_certificate w = (Inr (c, k), w)"
  using assms by (simp add: load_ca_certificate_def)

lemma load_persists:
  assumes "load_ca_certificate w = (Inr (c, k), w1)"
  shows "ca_cert_path w1 = Some (CertPem c) \<and> ca_key_path w1 = Some (KeyPem k ca_password)"
proof (cases "ca_exists w")
  case True
  with assms show ?thesis
    by (auto simp: load_ca_certificate_def ca_exists_def
        split: option.splits file_content.splits if_splits)
next
  case False
  with assms show ?thesis
    by (auto simp: load_creates create_ca_certificate_def rsa_generate_private_key_def now_def Let_def)
qed

text \<open>
  Claim C4. Bootstrap is idempotent. Whenever \<open>load_ca_certificate\<close> returns a root
  (certificate and key), that root is what the two CA files hold afterwards, and a
  second bootstrap returns the same certificate and key and leaves the world as it
  was: no key is generated, no file is written. If both CA files existed before the
  first call, that call already leaves the world untouched.
\<close>

theorem bootstrap_idempotent:
  assumes "load_ca_certificate w = (Inr (c, k), w1)"
  shows "load_ca_certificate w1 = (Inr (c, k), w1)
       \<and> ca_cert_path w1 = Some (CertPem c)
       \<and> ca_key_path w1 = Some (KeyPem k ca_password)
       \<and> (ca_exists w \<longrightarrow> w1 = w)"
proof -
  from load_persists [OF assms]
  have p: "ca_cert_path w1 = Some (CertPem c)" "ca_key_path w1 = Some (KeyPem k ca_password)"
    by simp_all
  then have "load_ca_certificate w1 = (Inr (c, k), w1)" by (rule load_existing)
  moreover have "w1 = w" if "ca_exists w"
    using load_existing_world [OF that] assms by simp
  ultimately show ?thesis using p by simp
qed

lemmas world_eval =
  empty_world_def load_ca_certificate_def create_ca_certificate_def
  rsa_generate_private_key_def now_def ca_exists_def Let_def

theorem bootstrap_idempotent_witness:
  "load_ca_certificate (snd (load_ca_certificate (empty_world some_clock some_entropy)))
     = (Inr (fst (create_ca_certificate (empty_world some_clock some_entropy))),
        snd (load_ca_certificate (empty_world some_clock some_entropy)))
   \<and> ca_exists (snd (load_ca_certificate (empty_world some_clock some_entropy)))
   \<and> draws (snd (load_ca_certificate (snd (load_ca_certificate (empty_world some_clock some_entropy))))) = 1"
proof -
  define E where "E = empty_world some_clock some_entropy"
  obtain c k where ck: "fst (create_ca_certificate E) = (c, k)"
    by (cases "fst (create_ca_certificate E)")
  have h: "load_ca_certificate E = (Inr (c, k), snd (load_ca_certificate E))"
    using ck by (auto simp: E_def world_eval)
  from bootstrap_idempotent [OF h] have
    "load_ca_certificate (snd (load_ca_certificate E)) = (Inr (c, k), snd (load_ca_certificate E))"
    by simp
  moreover have "ca_exists (snd (load_ca_certificate E))" by (simp add: E_def world_eval)
  moreover have "draws (snd (load_ca_certificate E)) = 1" by (simp add: E_def world_eval)
  ultimately show ?thesis using ck by (simp add: E_def)
qed

text \<open>
  Claim C5. When no persisted root exists, bootstrap returns a root whose key has 4096
  bits (at least 3072), that is self-signed (issuer equals subject, signed with its own
  key) with \<open>CA:true\<close>, whose key usage has \<open>keyCertSign\<close> and \<open>cRLSign\<close>, whose
  validity ends \<open>365 * 10\<close> days after the clock reading taken for it and starts at the
  reading before, whose serial is 1; and the serial file then holds \<open>2\<close>.
\<close>

theorem bootstrap_creates_root:
  assumes "\<not> ca_exists w"
  shows "\<exists>c k w1. load_ca_certificate w = (Inr (c, k), w1)
           \<and> 3072 \<le> key_size k
           \<and> cert_public_key c = public_key_of k
           \<and> issuer c = subject c \<and> signed_with c = public_key_of k
           \<and> (BasicConstraints True (Some 0), True) \<in> set (extensions c)
           \<and> (\<exists>u. (KeyUsage u, True) \<in> set (extensions c) \<and> key_cert_sign u \<and> crl_sign u)
           \<and> not_valid_before c = clock w (ticks w)
           \<and> not_valid_after c = clock w (Suc (ticks w)) + days 3650
           \<and> serial_number c = 1
           \<and> ca_cert_path w1 = Some (CertPem c)
           \<and> ca_key_path w1 = Some (KeyPem k ca_password)
           \<and> serial_file w1 = Some (Text ''2'') \<and> py_int ''2'' = Some 2"
  using assms
  by (simp add: load_creates create_ca_certificate_def rsa_generate_private_key_def now_def
      Let_def ca_key_usage_def py_int_2)

theorem bootstrap_creates_root_witness:
  "\<not> ca_exists (empty_world some_clock some_entropy)
   \<and> (\<exists>c k w1. load_ca_certificate (empty_world some_clock some_entropy) = (Inr (c, k), w1)
         \<and> key_size k = 4096 \<and> serial_number c = 1
         \<and> not_valid_after c - not_valid_before c = days 3650 + 1
         \<and> serial_file w1 = Some (Text ''2''))"
proof -
  have h: "\<not> ca_exists (empty_world some_clock some_entropy)"
    by (simp add: empty_world_def ca_exists_def)
  from bootstrap_creates_root [OF h] show ?thesis
    by (auto simp: h world_eval some_clock_def)
qed

lemmas text_eval =
  py_str_def str_nat.simps digit_char_def py_int_def strip_def is_space_def digit_val_def

lemmas ca_eval =
  empty_world_def load_ca_certificate_def create_ca_certificate_def
  rsa_generate_private_key_def now_def ca_exists_def Let_def
  get_next_serial_number_def create_pdf_signing_certificate_def create_pkcs12_def
  x509_serial_ok_def issued_serial_def create_crl_def



theorem serials_strictly_increase_witness:
  "issued_serial (snd (create_pdf_signing_certificate ''ARUL M'' ''m.arul@fte.com''
       (empty_world some_clock some_entropy))) = Some 2
   \<and> issued_serial (snd (create_pdf_signing_certificate ''TEST SIGNER'' ''t@fte.com''
       (do_calls [CreateCert ''X'' ''x@fte.com'', CreateCrl None]
         (snd (create_pdf_signing_certificate ''ARUL M'' ''m.arul@fte.com''
           (empty_world some_clock some_entropy)))))) = Some 4"
proof -
  define E where "E = empty_world some_clock some_entropy"
  define W1 where "W1 = snd (create_pdf_signing_certificate ''ARUL M'' ''m.arul@fte.com'' E)"
  define W2 where "W2 = do_calls [CreateCert ''X'' ''x@fte.com'', CreateCrl None] W1"
  define W3 where "W3 = snd (create_pdf_signing_certificate ''TEST SIGNER'' ''t@fte.com'' W2)"
  have r1: "ready 3 W1" and i1: "issued_serial W1 = Some 2"
    and f1: "fst (create_pdf_signing_certificate ''ARUL M'' ''m.arul@fte.com'' E)
              = Inr (''signing_cert.p12'', ''ca_bundle.pem'')"
    by (simp_all add: W1_def E_def ca_eval text_eval ready_def)
  have h1: "create_pdf_signing_certificate ''ARUL M'' ''m.arul@fte.com'' E
              = (Inr (''signing_cert.p12'', ''ca_bundle.pem''), W1)"
    using f1 by (simp add: W1_def prod_eq_iff)
  have f3: "fst (create_pdf_signing_certificate ''TEST SIGNER'' ''t@fte.com'' W2)
              = Inr (''signing_cert.p12'', ''ca_bundle.pem'')"
    by (simp add: W2_def W1_def E_def ca_eval text_eval)
  have h2: "create_pdf_signing_certificate ''TEST SIGNER'' ''t@fte.com'' (do_calls [CreateCert ''X'' ''x@fte.com'', CreateCrl None] W1)
              = (Inr (''signing_cert.p12'', ''ca_bundle.pem''), W3)"
    using f3 by (simp add: W3_def W2_def prod_eq_iff)
  from serials_strictly_increase [OF h1 h2] obtain s1 s2 where
    s: "issued_serial W1 = Some s1" "issued_serial W3 = Some s2" "s1 < s2"
       "serial_file W3 = Some (Text (py_str (s2 + 1)))"
    by blast
  have "serial_file W3 = Some (Text ''5'')"
    by (simp add: W3_def W2_def W1_def E_def ca_eval text_eval)
  with s(4) have "py_int (py_str (s2 + 1)) = py_int ''5''" by simp
  then have "s2 = 4" by (simp add: py_int_py_str) (simp add: text_eval)
  with s i1 show ?thesis by (simp add: W3_def W2_def W1_def E_def)
qed

lemma revoke_all_ok:
  assumes "\<forall>s\<in>set l. x509_serial_ok s"
  shows "revoke_all l acc w =
     (Inr (acc @ map (\<lambda>(i, s). \<lparr>revoked_serial = s, revocation_date = clock w i\<rparr>)
                   (List.enumerate (ticks w) l)),
      w\<lparr>ticks := ticks w + length l\<rparr>)"
  using assms
proof (induction l arbitrary: acc w)
  case Nil
  then show ?case by simp
next
  case (Cons s l)
  then show ?case by (simp add: now_def)
qed

text \<open>
  Claim C7, as the code has it. There is no revoke operation and no record of issued
  serials. \<open>create_crl\<close> writes a list that holds one entry for every serial of its
  argument, in order, each dated by its own clock reading, whether or not the serial
  was ever issued; nothing of an earlier list is carried over, and no error is raised
  for a serial the CA never issued (the X.509 builder refuses only serials outside
  \<open>1 .. 2^159 - 1\<close>).
\<close>

theorem create_crl_lists_its_argument:
  assumes "load_ca_certificate w = (Inr (ca_cert, ca_key), w1)"
      and "\<forall>s\<in>set l. x509_serial_ok s"
  shows "create_crl (Some l) w =
     (Inr ''ca_crl.pem'',
      w1\<lparr>ticks := ticks w1 + 2 + length l,
         crl_path := Some (CrlPem
           \<lparr>crl_issuer = subject ca_cert,
            last_update = clock w1 (ticks w1),
            next_update = clock w1 (ticks w1 + 1) + days 30,
            revoked = map (\<lambda>(i, s). \<lparr>revoked_serial = s, revocation_date = clock w1 i\<rparr>)
                          (List.enumerate (ticks w1 + 2) l),
            crl_signed_with = public_key_of ca_key\<rparr>)\<rparr>)"
  using assms by (simp add: create_crl_def now_def revoke_all_ok)

theorem create_crl_lists_its_argument_witness:
  "\<exists>c w'. create_crl (Some [999, 2]) (empty_world some_clock some_entropy) = (Inr ''ca_crl.pem'', w')
      \<and> crl_path w' = Some (CrlPem c)
      \<and> revoked c = [\<lparr>revoked_serial = 999, revocation_date = 1750400044\<rparr>,
                      \<lparr>revoked_serial = 2, revocation_date = 1750400045\<rparr>]"
proof -
  have h1: "load_ca_certificate (empty_world some_clock some_entropy)
     = (Inr (fst (fst (create_ca_certificate (empty_world some_clock some_entropy))),
             snd (fst (create_ca_certificate (empty_world some_clock some_entropy)))),
        snd (create_ca_certificate (empty_world some_clock some_entropy)))"
    by (simp add: load_ca_certificate_def empty_world_def split_beta)
  have h2: "\<forall>s\<in>set [999, 2::int]. x509_serial_ok s" by (simp add: x509_serial_ok_def)
  show ?thesis
    by (simp add: create_crl_lists_its_argument [OF h1 h2])
       (simp add: empty_world_def create_ca_certificate_def rsa_generate_private_key_def
          now_def Let_def some_clock_def)
qed

text \<open>
  Claim C7 as stated fails: on a fresh CA that has issued no certificate, revoking
  serial 999 succeeds and the list written holds an entry for 999.
\<close>

theorem revoke_unissued_counterexample:
  "issued_serial (snd (load_ca_certificate (empty_world some_clock some_entropy))) = None
   \<and> fst (create_crl (Some [999]) (snd (load_ca_certificate (empty_world some_clock some_entropy))))
       = Inr ''ca_crl.pem''
   \<and> (\<exists>c. crl_path (snd (create_crl (Some [999])
               (snd (load_ca_certificate (empty_world some_clock some_entropy))))) = Some (CrlPem c)
          \<and> map revoked_serial (revoked c) = [999])"
  by (simp add: ca_eval some_clock_def)

section \<open>Properties of the signing engine\<close>

lemma tsa_items_lookup:
  "k \<noteq> ''tsaurl'' \<Longrightarrow> map_of (tsa_items env) k = None"
  by (simp add: tsa_items_def split: option.splits)

lemma certify_dct_lookup:
  "map_of (certify_dct env info t) ''certification_level'' = Some (IntV 1)"
  "map_of (certify_dct env info t) ''docmdp'' = Some (IntV 1)"
  "map_of (certify_dct env info t) ''sigfield'' = Some (StrV ''CertificationSig'')"
  "map_of (certify_dct env info t) ''sigpage'' = Some (IntV 0)"
  "map_of (certify_dct env info t) ''signaturebox'' = None"
  by (simp_all add: certify_dct_def tsa_items_lookup)

lemma appearance_lookup:
  "map_of (fst (build_appearance_dict ac n w)) ''certification_level'' = None"
  "map_of (fst (build_appearance_dict ac n w)) ''docmdp'' = None"
  by (simp_all add: build_appearance_dict_def Let_def split_beta)

lemma page_sig_dct_lookup:
  "map_of (page_sig_dct env ac n (fst (build_appearance_dict ac n w))) ''certification_level'' = None"
  "map_of (page_sig_dct env ac n (fst (build_appearance_dict ac n w))) ''docmdp'' = None"
  "map_of (page_sig_dct env ac n a) ''sigpage'' = Some (IntV (int n))"
  "map_of (page_sig_dct env ac n a) ''sigfield''
     = Some (StrV (''ApprovalSignature_Page'' @ py_str (int n + 1)))"
  "map_of (page_sig_dct env (new_SignatureAppearance info) n a) ''signaturebox''
     = Some (BoxV 450 50 580 120)"
  by (simp_all add: page_sig_dct_def map_add_def tsa_items_lookup appearance_lookup
      new_SignatureAppearance_def split: option.splits)


lemma build_appearance_world:
  "cms_calls (snd (build_appearance_dict ac n w)) = cms_calls w"
  "pdf_files (snd (build_appearance_dict ac n w)) = pdf_files w"
  "signing_cert_p12 (snd (build_appearance_dict ac n w)) = signing_cert_p12 w"
  by (simp_all add: build_appearance_dict_def now_def Let_def split_beta)

lemma call_cms_sign_world:
  "fst (call_cms_sign env data dct key cert chain h w) = cms_sign env data dct key cert chain h"
  "cms_calls (snd (call_cms_sign env data dct key cert chain h w))
     = cms_calls w @ [\<lparr>call_data = data, call_dict = dct, call_key = key, call_cert = cert,
                        call_chain = chain, call_hash = h,
                        call_result = cms_sign env data dct key cert chain h\<rparr>]"
  "pdf_files (snd (call_cms_sign env data dct key cert chain h w)) = pdf_files w"
  by (simp_all add: call_cms_sign_def Let_def)

lemma approve_pages_calls:
  assumes "approve_pages env key cert chain ac pages cur w = (Inr final, w')"
  shows "\<exists>calls. cms_calls w' = cms_calls w @ calls
           \<and> incremental_chain cur calls final
           \<and> dict_entries ''certification_level'' calls = map (\<lambda>k. None) pages
           \<and> dict_entries ''docmdp'' calls = map (\<lambda>k. None) pages
           \<and> dict_entries ''sigpage'' calls = map (\<lambda>k. Some (IntV (int k))) pages
           \<and> dict_entries ''sigfield'' calls
               = map (\<lambda>k. Some (StrV (''ApprovalSignature_Page'' @ py_str (int k + 1)))) pages"
  using assms
proof (induction pages arbitrary: cur w)
  case Nil
  then show ?case by (simp add: dict_entries_def)
next
  case (Cons n pages)
  define a where "a = fst (build_appearance_dict ac n w)"
  define w1 where "w1 = snd (build_appearance_dict ac n w)"
  define dct where "dct = page_sig_dct env ac n a"
  define r where "r = cms_sign env cur dct key cert chain ''sha256''"
  define w2 where "w2 = snd (call_cms_sign env cur dct key cert chain ''sha256'' w1)"
  define c where "c = \<lparr>call_data = cur, call_dict = dct, call_key = key, call_cert = cert,
                       call_chain = chain, call_hash = ''sha256'', call_result = r\<rparr>"
  have cs: "call_cms_sign env cur dct key cert chain ''sha256'' w1 = (r, w2)"
    by (simp add: r_def w2_def call_cms_sign_def Let_def)
  have log2: "cms_calls w2 = cms_calls w @ [c]"
    by (simp add: w2_def w1_def c_def r_def call_cms_sign_world build_appearance_world)
  from Cons.prems obtain sig where sig: "r = Inr sig"
    and rest: "approve_pages env key cert chain ac pages (cur @ sig) w2 = (Inr final, w')"
    by (cases r) (auto simp: Let_def split_beta a_def [symmetric] w1_def [symmetric]
        dct_def [symmetric] cs)
  from Cons.IH [OF rest] obtain calls where calls:
    "cms_calls w' = cms_calls w2 @ calls"
    "incremental_chain (cur @ sig) calls final"
    "dict_entries ''certification_level'' calls = map (\<lambda>k. None) pages"
    "dict_entries ''docmdp'' calls = map (\<lambda>k. None) pages"
    "dict_entries ''sigpage'' calls = map (\<lambda>k. Some (IntV (int k))) pages"
    "dict_entries ''sigfield'' calls
       = map (\<lambda>k. Some (StrV (''ApprovalSignature_Page'' @ py_str (int k + 1)))) pages"
    by blast
  have d: "map_of dct ''certification_level'' = None" "map_of dct ''docmdp'' = None"
    "map_of dct ''sigpage'' = Some (IntV (int n))"
    "map_of dct ''sigfield'' = Some (StrV (''ApprovalSignature_Page'' @ py_str (int n + 1)))"
    by (simp_all add: dct_def a_def page_sig_dct_lookup)
  have "cms_calls w' = cms_calls w @ (c # calls)" using calls(1) log2 by simp
  moreover have "incremental_chain cur (c # calls) final" using calls(2) sig by (simp add: c_def)
  moreover have "dict_entries ''certification_level'' (c # calls) = map (\<lambda>k. None) (n # pages)"
    "dict_entries ''docmdp'' (c # calls) = map (\<lambda>k. None) (n # pages)"
    "dict_entries ''sigpage'' (c # calls) = map (\<lambda>k. Some (IntV (int k))) (n # pages)"
    "dict_entries ''sigfield'' (c # calls)
       = map (\<lambda>k. Some (StrV (''ApprovalSignature_Page'' @ py_str (int k + 1)))) (n # pages)"
    using calls(3-6) d by (simp_all add: dict_entries_def c_def)
  ultimately show ?case by blast
qed

lemma signing_steps_calls:
  assumes "signing_steps env key cert chain input_path w = (Inr final, w')"
  shows "\<exists>pdf_data_in calls n.
           pdf_files w input_path = Some pdf_data_in
         \<and> cms_calls w' = cms_calls w @ calls
         \<and> length calls = Suc n
         \<and> incremental_chain pdf_data_in calls final
         \<and> pdf_page_count env (pdf_data_in @ (case call_result (hd calls) of Inr s \<Rightarrow> s | Inl e \<Rightarrow> [])) = Inr n
         \<and> dict_entries ''certification_level'' calls = Some (IntV 1) # replicate n None
         \<and> dict_entries ''docmdp'' calls = Some (IntV 1) # replicate n None
         \<and> dict_entries ''sigpage'' (tl calls) = map (\<lambda>k. Some (IntV (int k))) [0..<n]
         \<and> dict_entries ''sigfield'' calls
             = Some (StrV ''CertificationSig'')
               # map (\<lambda>k. Some (StrV (''ApprovalSignature_Page'' @ py_str (int k + 1)))) [0..<n]"
proof -
  define info where "info = get_signer_info_from_cert cert"
  define ac where "ac = new_SignatureAppearance info"
  define t where "t = fst (now w)"
  define w1 where "w1 = snd (now w)"
  define dct where "dct = certify_dct env info t"
  have w1: "pdf_files w1 = pdf_files w" "cms_calls w1 = cms_calls w"
    by (simp_all add: w1_def now_def)
  from assms obtain pdf_data_in where inp: "pdf_files w input_path = Some pdf_data_in"
    by (cases "pdf_files w input_path")
       (auto simp: signing_steps_def Let_def split_beta w1_def [symmetric] w1)
  define r where "r = cms_sign env pdf_data_in dct key cert chain ''sha256''"
  define w2 where "w2 = snd (call_cms_sign env pdf_data_in dct key cert chain ''sha256'' w1)"
  define c where "c = \<lparr>call_data = pdf_data_in, call_dict = dct, call_key = key, call_cert = cert,
                       call_chain = chain, call_hash = ''sha256'', call_result = r\<rparr>"
  have cs: "call_cms_sign env pdf_data_in dct key cert chain ''sha256'' w1 = (r, w2)"
    by (simp add: r_def w2_def call_cms_sign_def Let_def)
  have log2: "cms_calls w2 = cms_calls w @ [c]"
    by (simp add: w2_def c_def r_def call_cms_sign_world w1)
  have unfolded: "signing_steps env key cert chain input_path w =
     (case r of
        Inl e \<Rightarrow> (Inl e, w2)
      | Inr s \<Rightarrow>
          (case pdf_page_count env (pdf_data_in @ s) of
             Inl e \<Rightarrow> (Inl e, w2)
           | Inr page_count \<Rightarrow> approve_pages env key cert chain ac [0..<page_count] (pdf_data_in @ s) w2))"
    using inp cs
    by (auto simp: signing_steps_def Let_def split_beta info_def ac_def
        t_def w1_def dct_def now_def split: sum.splits)
  from assms unfolded obtain s where s: "r = Inr s" by (cases r) auto
  from assms unfolded s obtain n where n: "pdf_page_count env (pdf_data_in @ s) = Inr n"
    by (cases "pdf_page_count env (pdf_data_in @ s)") auto
  from assms unfolded s n
  have rest: "approve_pages env key cert chain ac [0..<n] (pdf_data_in @ s) w2 = (Inr final, w')"
    by simp
  from approve_pages_calls [OF rest] obtain calls where calls:
    "cms_calls w' = cms_calls w2 @ calls"
    "incremental_chain (pdf_data_in @ s) calls final"
    "dict_entries ''certification_level'' calls = map (\<lambda>k. None) [0..<n]"
    "dict_entries ''docmdp'' calls = map (\<lambda>k. None) [0..<n]"
    "dict_entries ''sigpage'' calls = map (\<lambda>k. Some (IntV (int k))) [0..<n]"
    "dict_entries ''sigfield'' calls
       = map (\<lambda>k. Some (StrV (''ApprovalSignature_Page'' @ py_str (int k + 1)))) [0..<n]"
    by blast
  from calls(5) have len: "length calls = n"
    using length_map [of "\<lambda>c. map_of (call_dict c) ''sigpage''" calls]
    by (simp add: dict_entries_def)
  have rep: "map (\<lambda>k. None) [0..<n] = replicate n None" by (simp add: map_replicate_const)
  have "cms_calls w' = cms_calls w @ (c # calls)" using calls(1) log2 by simp
  moreover have "length (c # calls) = Suc n" using len by simp
  moreover have "incremental_chain pdf_data_in (c # calls) final"
    using calls(2) s by (simp add: c_def)
  moreover have "pdf_page_count env (pdf_data_in @ (case call_result (hd (c # calls)) of Inr s \<Rightarrow> s | Inl e \<Rightarrow> [])) = Inr n"
    using n s by (simp add: c_def)
  moreover have "dict_entries ''certification_level'' (c # calls) = Some (IntV 1) # replicate n None"
    "dict_entries ''docmdp'' (c # calls) = Some (IntV 1) # replicate n None"
    "dict_entries ''sigpage'' (tl (c # calls)) = map (\<lambda>k. Some (IntV (int k))) [0..<n]"
    "dict_entries ''sigfield'' (c # calls)
       = Some (StrV ''CertificationSig'')
         # map (\<lambda>k. Some (StrV (''ApprovalSignature_Page'' @ py_str (int k + 1)))) [0..<n]"
    using calls(3-6) rep by (simp_all add: dict_entries_def c_def dct_def certify_dct_lookup)
  ultimately show ?thesis using inp by blast
qed

lemma approve_pages_faithful:
  "\<exists>calls. cms_calls (snd (approve_pages env key cert chain ac pages cur w)) = cms_calls w @ calls
        \<and> list_all (\<lambda>c. faithful env c \<and> call_key c = key \<and> call_cert c = cert
                          \<and> call_chain c = chain \<and> call_hash c = ''sha256'') calls"
proof (induction pages arbitrary: cur w)
  case Nil
  then show ?case by simp
next
  case (Cons n pages)
  define a where "a = fst (build_appearance_dict ac n w)"
  define w1 where "w1 = snd (build_appearance_dict ac n w)"
  define dct where "dct = page_sig_dct env ac n a"
  define r where "r = cms_sign env cur dct key cert chain ''sha256''"
  define c where "c = \<lparr>call_data = cur, call_dict = dct, call_key = key, call_cert = cert,
                       call_chain = chain, call_hash = ''sha256'', call_result = r\<rparr>"
  define w2 where "w2 = w1\<lparr>cms_calls := cms_calls w1 @ [c]\<rparr>"
  have cs: "call_cms_sign env cur dct key cert chain ''sha256'' w1 = (r, w2)"
    by (simp add: r_def w2_def c_def call_cms_sign_def Let_def)
  have log2: "cms_calls w2 = cms_calls w @ [c]"
    by (simp add: w2_def w1_def build_appearance_world)
  have fc: "faithful env c \<and> call_key c = key \<and> call_cert c = cert
              \<and> call_chain c = chain \<and> call_hash c = ''sha256''"
    by (simp add: faithful_def c_def r_def)
  have step: "approve_pages env key cert chain ac (n # pages) cur w =
     (case r of Inl e \<Rightarrow> (Inl e, w2)
      | Inr s \<Rightarrow> approve_pages env key cert chain ac pages (cur @ s) w2)"
    using cs by (simp add: Let_def split_beta a_def w1_def dct_def split: sum.splits)
  show ?case
  proof (cases r)
    case (Inl e)
    with step log2 fc show ?thesis by simp
  next
    case (Inr s)
    from Cons.IH [of "cur @ s" w2] obtain calls where
      "cms_calls (snd (approve_pages env key cert chain ac pages (cur @ s) w2)) = cms_calls w2 @ calls"
      "list_all (\<lambda>c. faithful env c \<and> call_key c = key \<and> call_cert c = cert
                          \<and> call_chain c = chain \<and> call_hash c = ''sha256'') calls" by blast
    with step Inr log2 fc show ?thesis by simp
  qed
qed

lemma signing_steps_faithful:
  "\<exists>calls. cms_calls (snd (signing_steps env key cert chain input_path w)) = cms_calls w @ calls
        \<and> list_all (\<lambda>c. faithful env c \<and> call_key c = key \<and> call_cert c = cert
                          \<and> call_chain c = chain \<and> call_hash c = ''sha256'') calls"
proof (cases "pdf_files w input_path")
  case None
  then show ?thesis by (simp add: signing_steps_def Let_def split_beta now_def)
next
  case (Some pdf_data_in)
  define dct where "dct = certify_dct env (get_signer_info_from_cert cert) (fst (now w))"
  define r where "r = cms_sign env pdf_data_in dct key cert chain ''sha256''"
  define c where "c = \<lparr>call_data = pdf_data_in, call_dict = dct, call_key = key, call_cert = cert,
                       call_chain = chain, call_hash = ''sha256'', call_result = r\<rparr>"
  define w2 where "w2 = (snd (now w))\<lparr>cms_calls := cms_calls w @ [c]\<rparr>"
  have fc: "faithful env c \<and> call_key c = key \<and> call_cert c = cert
              \<and> call_chain c = chain \<and> call_hash c = ''sha256''"
    by (simp add: faithful_def c_def r_def)
  have log2: "cms_calls w2 = cms_calls w @ [c]" by (simp add: w2_def)
  show ?thesis
  proof (cases r)
    case (Inl e)
    then have "snd (signing_steps env key cert chain input_path w) = w2"
      using Some
      by (simp add: signing_steps_def Let_def split_beta now_def call_cms_sign_def dct_def
          r_def c_def w2_def)
    with log2 fc show ?thesis by simp
  next
    case (Inr s)
    show ?thesis
    proof (cases "pdf_page_count env (pdf_data_in @ s)")
      case (Inl e)
      then have "snd (signing_steps env key cert chain input_path w) = w2"
        using Some \<open>r = Inr s\<close>
        by (simp add: signing_steps_def Let_def split_beta now_def call_cms_sign_def dct_def
            r_def c_def w2_def)
      with log2 fc show ?thesis by simp
    next
      case (Inr n)
      then have e: "snd (signing_steps env key cert chain input_path w) =
          snd (approve_pages env key cert chain
                 (new_SignatureAppearance (get_signer_info_from_cert cert)) [0..<n] (pdf_data_in @ s) w2)"
        using Some \<open>r = Inr s\<close>
        by (simp add: signing_steps_def Let_def split_beta now_def call_cms_sign_def dct_def
            r_def c_def w2_def)
      from approve_pages_faithful [of env key cert chain
          "new_SignatureAppearance (get_signer_info_from_cert cert)" "[0..<n]" "pdf_data_in @ s" w2]
      obtain calls where
        "cms_calls (snd (approve_pages env key cert chain
                 (new_SignatureAppearance (get_signer_info_from_cert cert)) [0..<n] (pdf_data_in @ s) w2))
           = cms_calls w2 @ calls" "list_all (\<lambda>c. faithful env c \<and> call_key c = key \<and> call_cert c = cert
                          \<and> call_chain c = chain \<and> call_hash c = ''sha256'') calls" by blast
      with e log2 fc show ?thesis by simp
    qed
  qed
qed

lemma incremental_chain_results:
  "incremental_chain cur calls final
     \<Longrightarrow> list_all (\<lambda>c. case call_result c of Inr s \<Rightarrow> True | Inl e \<Rightarrow> False) calls"
proof (induction calls arbitrary: cur)
  case Nil
  then show ?case by simp
next
  case (Cons c calls)
  then show ?case by (cases "call_result c") auto
qed

lemma signing_world_fields:
  "signing_cert_p12 signing_world =
     Some (P12 ''TEST SIGNER PDF Signing Certificate''
       (RSAPrivateKey 65537 2048 (some_entropy 1))
       \<lparr>subject = cert_subject ''TEST SIGNER'' ''test.signer@fte.com'',
        issuer = ca_subject,
        cert_public_key = RSAPublicKey 65537 2048 (some_entropy 1),
        serial_number = 2,
        not_valid_before = some_clock 2,
        not_valid_after = some_clock 3 + days (365 * 3),
        extensions =
          [(BasicConstraints False None, True),
           (KeyUsage cert_key_usage, True),
           (ExtendedKeyUsage [CODE_SIGNING, EMAIL_PROTECTION, CLIENT_AUTH], True),
           (SubjectAlternativeName [''test.signer@fte.com''], False),
           (SubjectKeyIdentifier (RSAPublicKey 65537 2048 (some_entropy 1)), False),
           (AuthorityKeyIdentifier (RSAPublicKey 65537 4096 (some_entropy 0)), False),
           (CRLDistributionPoints [''http://localhost:8000/pdf-signature/crl/''], False),
           (AuthorityInformationAccess [''http://localhost:8000/pdf-signature/ca-cert/''], False)],
        signed_with = RSAPublicKey 65537 4096 (some_entropy 0),
        signature_hash = SHA256\<rparr>
       [fst (fst (create_ca_certificate (empty_world some_clock some_entropy)))]
       p12_password)"
  "pdf_files signing_world = [''in.pdf'' \<mapsto> [CHR 0x0C, CHR 0x0C, CHR 0x0C]]"
  "cms_calls signing_world = []"
  "pyhanko_calls signing_world = []"
  "ticks signing_world = 4"
  "clock signing_world = some_clock"
  by (simp_all add: signing_world_def ca_eval text_eval numeral_2_eq_2 numeral_3_eq_3)


lemma approve_pages_files:
  "pdf_files (snd (approve_pages env key cert chain ac pages cur w)) = pdf_files w"
proof (induction pages arbitrary: cur w)
  case Nil
  then show ?case by simp
next
  case (Cons n pages)
  show ?case
    by (cases "cms_sign env cur (page_sig_dct env ac n (fst (build_appearance_dict ac n w)))
                 key cert chain ''sha256''")
       (simp_all add: Let_def split_beta call_cms_sign_def Cons.IH build_appearance_world)
qed

lemma signing_steps_files:
  "pdf_files (snd (signing_steps env key cert chain input_path w)) = pdf_files w"
proof (cases "pdf_files w input_path")
  case None
  then show ?thesis by (simp add: signing_steps_def Let_def split_beta now_def)
next
  case (Some pdf_data_in)
  define dct where "dct = certify_dct env (get_signer_info_from_cert cert) (fst (now w))"
  show ?thesis
  proof (cases "cms_sign env pdf_data_in dct key cert chain ''sha256''")
    case (Inl e)
    with Some show ?thesis
      by (simp add: signing_steps_def Let_def split_beta now_def call_cms_sign_def dct_def)
  next
    case (Inr s)
    show ?thesis
    proof (cases "pdf_page_count env (pdf_data_in @ s)")
      case (Inl e)
      with Some Inr show ?thesis
        by (simp add: signing_steps_def Let_def split_beta now_def call_cms_sign_def dct_def)
    next
      case (Inr n)
      with Some \<open>cms_sign env pdf_data_in dct key cert chain ''sha256'' = Inr s\<close> show ?thesis
        by (simp add: signing_steps_def Let_def split_beta now_def call_cms_sign_def dct_def
            approve_pages_files)
    qed
  qed
qed

lemma engine_success:
  assumes "sign_pdf_multi_page env input_path output_path w = (Inr p, w')
         \<or> sign_pdf_multi_page_with_proper_mdp env input_path output_path w = (Inr p, w')"
  shows "\<exists>key cert chain pdf_data_in calls final n.
           load_certificate_data w = Inr (key, cert, chain)
         \<and> pdf_files w input_path = Some pdf_data_in
         \<and> cms_calls w' = cms_calls w @ calls
         \<and> length calls = Suc n
         \<and> list_all (\<lambda>c. faithful env c \<and> call_key c = key \<and> call_cert c = cert
                          \<and> call_chain c = chain \<and> call_hash c = ''sha256'') calls
         \<and> incremental_chain pdf_data_in calls final
         \<and> pdf_page_count env (pdf_data_in @ (case call_result (hd calls) of Inr s \<Rightarrow> s | Inl e \<Rightarrow> [])) = Inr n
         \<and> dict_entries ''certification_level'' calls = Some (IntV 1) # replicate n None
         \<and> dict_entries ''docmdp'' calls = Some (IntV 1) # replicate n None
         \<and> dict_entries ''sigpage'' (tl calls) = map (\<lambda>k. Some (IntV (int k))) [0..<n]
         \<and> dict_entries ''sigfield'' calls
             = Some (StrV ''CertificationSig'')
               # map (\<lambda>k. Some (StrV (''ApprovalSignature_Page'' @ py_str (int k + 1)))) [0..<n]
         \<and> pdf_files w' output_path = Some final"
proof -
  from assms have av: "endesive_available env"
    by (auto simp: sign_pdf_multi_page_def sign_pdf_multi_page_with_proper_mdp_def split: if_splits)
  from assms av obtain key cert chain where l: "load_certificate_data w = Inr (key, cert, chain)"
    by (cases "load_certificate_data w")
       (auto simp: sign_pdf_multi_page_def sign_pdf_multi_page_with_proper_mdp_def)
  obtain r w1 where st: "signing_steps env key cert chain input_path w = (r, w1)"
    by (cases "signing_steps env key cert chain input_path w")
  from assms av l st obtain final where r: "r = Inr final"
    and w': "w' = w1\<lparr>pdf_files := (pdf_files w1)(output_path \<mapsto> final)\<rparr>"
    by (cases r)
       (auto simp: sign_pdf_multi_page_def sign_pdf_multi_page_with_proper_mdp_def
             split: option.splits if_splits)
  have log: "cms_calls w' = cms_calls w1" and out: "pdf_files w' output_path = Some final"
    using w' by simp_all
  from signing_steps_calls [OF st [unfolded r]] obtain pdf_data_in calls n where c:
    "pdf_files w input_path = Some pdf_data_in"
    "cms_calls w1 = cms_calls w @ calls"
    "length calls = Suc n"
    "incremental_chain pdf_data_in calls final"
    "pdf_page_count env (pdf_data_in @ (case call_result (hd calls) of Inr s \<Rightarrow> s | Inl e \<Rightarrow> [])) = Inr n"
    "dict_entries ''certification_level'' calls = Some (IntV 1) # replicate n None"
    "dict_entries ''docmdp'' calls = Some (IntV 1) # replicate n None"
    "dict_entries ''sigpage'' (tl calls) = map (\<lambda>k. Some (IntV (int k))) [0..<n]"
    "dict_entries ''sigfield'' calls
       = Some (StrV ''CertificationSig'')
         # map (\<lambda>k. Some (StrV (''ApprovalSignature_Page'' @ py_str (int k + 1)))) [0..<n]"
    by (elim exE conjE) (rule that; assumption)
  from signing_steps_faithful [of env key cert chain input_path w] st obtain calls' where
    "cms_calls w1 = cms_calls w @ calls'"
    "list_all (\<lambda>c. faithful env c \<and> call_key c = key \<and> call_cert c = cert
                          \<and> call_chain c = chain \<and> call_hash c = ''sha256'') calls'"
    by auto
  with c(2) have fa: "list_all (\<lambda>c. faithful env c \<and> call_key c = key \<and> call_cert c = cert
                          \<and> call_chain c = chain \<and> call_hash c = ''sha256'') calls"
    by simp
  show ?thesis
    using l c(1,2,3) fa c(4-9) out unfolding log
    by - (rule exI [of _ key], rule exI [of _ cert], rule exI [of _ chain],
          rule exI [of _ pdf_data_in], rule exI [of _ calls], rule exI [of _ final],
          rule exI [of _ n], intro conjI; assumption)
qed

lemmas engine_eval =
  sign_pdf_multi_page_with_proper_mdp_def sign_pdf_multi_page_def load_certificate_data_def
  signing_steps_def call_cms_sign_def toy_libs_def flaky_libs_def triple_libs_def toy_sign_def flaky_sign_def
  toy_page_count_def certify_dct_def page_sig_dct_def build_appearance_dict_def tsa_items_def
  new_SignatureAppearance_def now_def Let_def p12_password_def











lemma proper_mdp_failure:
  assumes "sign_pdf_multi_page_with_proper_mdp env input_path output_path w = (Inl e, w')"
  shows "pdf_files w' = pdf_files w"
proof (cases "endesive_available env")
  case False
  with assms show ?thesis by (simp add: sign_pdf_multi_page_with_proper_mdp_def)
next
  case True
  show ?thesis
  proof (cases "load_certificate_data w")
    case (Inl e0)
    with assms True show ?thesis by (simp add: sign_pdf_multi_page_with_proper_mdp_def)
  next
    case (Inr k)
    obtain key cert chain where k: "k = (key, cert, chain)" by (cases k)
    obtain r w1 where st: "signing_steps env key cert chain input_path w = (r, w1)"
      by (cases "signing_steps env key cert chain input_path w")
    have "pdf_files w1 = pdf_files w" using signing_steps_files [of env key cert chain input_path w] st by simp
    with assms True Inr k st show ?thesis
      by (cases r) (auto simp: sign_pdf_multi_page_with_proper_mdp_def)
  qed
qed

lemma legacy_failure:
  assumes "sign_pdf_multi_page env input_path output_path w = (Inl e, w')"
  shows "pdf_files w' =
     (if endesive_available env \<and> (\<exists>k. load_certificate_data w = Inr k)
         \<and> pdf_files w output_path = None
      then (case pdf_files w input_path of
              Some original \<Rightarrow> (pdf_files w)(output_path \<mapsto> original)
            | None \<Rightarrow> pdf_files w)
      else pdf_files w)"
proof (cases "endesive_available env")
  case False
  with assms show ?thesis by (simp add: sign_pdf_multi_page_def)
next
  case True
  show ?thesis
  proof (cases "load_certificate_data w")
    case (Inl e0)
    with assms True show ?thesis by (simp add: sign_pdf_multi_page_def)
  next
    case (Inr k)
    obtain key cert chain where k: "k = (key, cert, chain)" by (cases k)
    obtain r w1 where st: "signing_steps env key cert chain input_path w = (r, w1)"
      by (cases "signing_steps env key cert chain input_path w")
    have f: "pdf_files w1 = pdf_files w" using signing_steps_files [of env key cert chain input_path w] st by simp
    with assms True Inr k st show ?thesis
      by (cases r) (auto simp: sign_pdf_multi_page_def split: option.splits if_splits)
  qed
qed

lemma load_failure_aborts:
  assumes "endesive_available env" "load_certificate_data w = Inl e0"
  shows "sign_pdf_multi_page_with_proper_mdp env input_path output_path w = (Inl e0, w)"
        "sign_pdf_multi_page env input_path output_path w = (Inl e0, w)"
  using assms by (simp_all add: sign_pdf_multi_page_with_proper_mdp_def sign_pdf_multi_page_def)

text \<open>
  Claim C6, as the code has it. A run in which a step fails raises; it never returns.
  \<open>sign_pdf_multi_page_with_proper_mdp\<close> then leaves every document as it was. So
  does \<open>sign_pdf_multi_page\<close>, except that when nothing exists at the output path it
  first puts a copy of the unsigned input there. A certificate bundle that is missing
  or cannot be opened makes both raise with the world untouched. A run of either
  function that returns has made the certifying call and then one approval call for
  every page of the certified document, in page order; every one of these calls
  returned bytes, its logged result is what the library returned for its arguments, and
  the output file holds the input followed by the bytes of all of them. No list of
  failed pages is returned, and the validity window of the certificate is not looked
  at.
\<close>

theorem failed_signing_leaves_documents:
  "(sign_pdf_multi_page_with_proper_mdp env input_path output_path w = (Inl e, w1)
      \<longrightarrow> pdf_files w1 = pdf_files w)
   \<and> (sign_pdf_multi_page env input_path output_path w = (Inl e, w2)
      \<longrightarrow> pdf_files w2 =
           (if endesive_available env \<and> (\<exists>k. load_certificate_data w = Inr k)
               \<and> pdf_files w output_path = None
            then (case pdf_files w input_path of
                    Some original \<Rightarrow> (pdf_files w)(output_path \<mapsto> original)
                  | None \<Rightarrow> pdf_files w)
            else pdf_files w))
   \<and> (endesive_available env \<and> load_certificate_data w = Inl e
      \<longrightarrow> sign_pdf_multi_page_with_proper_mdp env input_path output_path w = (Inl e, w)
        \<and> sign_pdf_multi_page env input_path output_path w = (Inl e, w))
   \<and> (sign_pdf_multi_page env input_path output_path w = (Inr p, w3)
        \<or> sign_pdf_multi_page_with_proper_mdp env input_path output_path w = (Inr p, w3)
      \<longrightarrow> (\<exists>key cert chain pdf_data_in calls final n.
             load_certificate_data w = Inr (key, cert, chain)
           \<and> pdf_files w input_path = Some pdf_data_in
           \<and> cms_calls w3 = cms_calls w @ calls
           \<and> length calls = Suc n
           \<and> list_all (\<lambda>c. faithful env c \<and> call_key c = key \<and> call_cert c = cert
                            \<and> call_chain c = chain \<and> call_hash c = ''sha256'') calls
           \<and> incremental_chain pdf_data_in calls final
           \<and> pdf_page_count env (pdf_data_in @ (case call_result (hd calls) of Inr s \<Rightarrow> s | Inl e \<Rightarrow> [])) = Inr n
           \<and> dict_entries ''certification_level'' calls = Some (IntV 1) # replicate n None
           \<and> dict_entries ''docmdp'' calls = Some (IntV 1) # replicate n None
           \<and> dict_entries ''sigpage'' (tl calls) = map (\<lambda>k. Some (IntV (int k))) [0..<n]
           \<and> dict_entries ''sigfield'' calls
               = Some (StrV ''CertificationSig'')
                 # map (\<lambda>k. Some (StrV (''ApprovalSignature_Page'' @ py_str (int k + 1)))) [0..<n]
           \<and> pdf_files w3 output_path = Some final
           \<and> list_all (\<lambda>c. case call_result c of Inr s \<Rightarrow> True | Inl e \<Rightarrow> False) calls))"
proof (intro conjI impI)
  assume "sign_pdf_multi_page_with_proper_mdp env input_path output_path w = (Inl e, w1)"
  then show "pdf_files w1 = pdf_files w" by (rule proper_mdp_failure)
next
  assume "sign_pdf_multi_page env input_path output_path w = (Inl e, w2)"
  then show "pdf_files w2 =
           (if endesive_available env \<and> (\<exists>k. load_certificate_data w = Inr k)
               \<and> pdf_files w output_path = None
            then (case pdf_files w input_path of
                    Some original \<Rightarrow> (pdf_files w)(output_path \<mapsto> original)
                  | None \<Rightarrow> pdf_files w)
            else pdf_files w)"
    by (rule legacy_failure)
next
  assume a: "endesive_available env \<and> load_certificate_data w = Inl e"
  then show "sign_pdf_multi_page_with_proper_mdp env input_path output_path w = (Inl e, w)"
    by (simp add: load_failure_aborts)
  from a show "sign_pdf_multi_page env input_path output_path w = (Inl e, w)"
    by (simp add: load_failure_aborts)
next
  assume "sign_pdf_multi_page env input_path output_path w = (Inr p, w3)
        \<or> sign_pdf_multi_page_with_proper_mdp env input_path output_path w = (Inr p, w3)"
  from engine_success [OF this] obtain key cert chain pdf_data_in calls final n where c:
    "load_certificate_data w = Inr (key, cert, chain)"
    "pdf_files w input_path = Some pdf_data_in"
    "cms_calls w3 = cms_calls w @ calls"
    "length calls = Suc n"
    "list_all (\<lambda>c. faithful env c \<and> call_key c = key \<and> call_cert c = cert
                 \<and> call_chain c = chain \<and> call_hash c = ''sha256'') calls"
    "incremental_chain pdf_data_in calls final"
    "pdf_page_count env (pdf_data_in @ (case call_result (hd calls) of Inr s \<Rightarrow> s | Inl e \<Rightarrow> [])) = Inr n"
    "dict_entries ''certification_level'' calls = Some (IntV 1) # replicate n None"
    "dict_entries ''docmdp'' calls = Some (IntV 1) # replicate n None"
    "dict_entries ''sigpage'' (tl calls) = map (\<lambda>k. Some (IntV (int k))) [0..<n]"
    "dict_entries ''sigfield'' calls
               = Some (StrV ''CertificationSig'')
                 # map (\<lambda>k. Some (StrV (''ApprovalSignature_Page'' @ py_str (int k + 1)))) [0..<n]"
    "pdf_files w3 output_path = Some final"
    by (elim exE conjE) (rule that; assumption)
  from c(6) have r: "list_all (\<lambda>c. case call_result c of Inr s \<Rightarrow> True | Inl e \<Rightarrow> False) calls"
    by (rule incremental_chain_results)
  show "\<exists>key cert chain pdf_data_in calls final n.
             load_certificate_data w = Inr (key, cert, chain)
           \<and> pdf_files w input_path = Some pdf_data_in
           \<and> cms_calls w3 = cms_calls w @ calls
           \<and> length calls = Suc n
           \<and> list_all (\<lambda>c. faithful env c \<and> call_key c = key \<and> call_cert c = cert
                            \<and> call_chain c = chain \<and> call_hash c = ''sha256'') calls
           \<and> incremental_chain pdf_data_in calls final
           \<and> pdf_page_count env (pdf_data_in @ (case call_result (hd calls) of Inr s \<Rightarrow> s | Inl e \<Rightarrow> [])) = Inr n
           \<and> dict_entries ''certification_level'' calls = Some (IntV 1) # replicate n None
           \<and> dict_entries ''docmdp'' calls = Some (IntV 1) # replicate n None
           \<and> dict_entries ''sigpage'' (tl calls) = map (\<lambda>k. Some (IntV (int k))) [0..<n]
           \<and> dict_entries ''sigfield'' calls
               = Some (StrV ''CertificationSig'')
                 # map (\<lambda>k. Some (StrV (''ApprovalSignature_Page'' @ py_str (int k + 1)))) [0..<n]
           \<and> pdf_files w3 output_path = Some final
           \<and> list_all (\<lambda>c. case call_result c of Inr s \<Rightarrow> True | Inl e \<Rightarrow> False) calls"
    using c r
    by - (rule exI [of _ key], rule exI [of _ cert], rule exI [of _ chain],
          rule exI [of _ pdf_data_in], rule exI [of _ calls], rule exI [of _ final],
          rule exI [of _ n], intro conjI; assumption)
qed

lemma flaky_run:
  "fst (sign_pdf_multi_page_with_proper_mdp flaky_libs ''in.pdf'' ''out.pdf'' signing_world)
     = Inl (LibraryError ''signing failed'')"
  "fst (sign_pdf_multi_page flaky_libs ''in.pdf'' ''out.pdf'' signing_world)
     = Inl (LibraryError ''signing failed'')"
  "pdf_files (snd (sign_pdf_multi_page flaky_libs ''in.pdf'' ''out.pdf'' signing_world)) ''out.pdf''
     = Some [CHR 0x0C, CHR 0x0C, CHR 0x0C]"
  "length (cms_calls (snd (sign_pdf_multi_page flaky_libs ''in.pdf'' ''out.pdf'' signing_world))) = 3"
  by (simp_all add: engine_eval signing_world_fields text_eval upt_rec)

lemma expired_world_fields:
  "signing_cert_p12 expired_world = signing_cert_p12 signing_world"
  "pdf_files expired_world = pdf_files signing_world"
  "cms_calls expired_world = []"
  "ticks expired_world = 4"
  "clock expired_world = (\<lambda>n. some_clock n + days 4000)"
  by (simp_all add: expired_world_def signing_world_fields)

lemma expired_run:
  "fst (sign_pdf_multi_page_with_proper_mdp toy_libs ''in.pdf'' ''out.pdf'' expired_world) = Inr ''out.pdf''"
  "pdf_files (snd (sign_pdf_multi_page_with_proper_mdp toy_libs ''in.pdf'' ''out.pdf'' expired_world)) ''out.pdf''
     = Some ([CHR 0x0C, CHR 0x0C, CHR 0x0C] @ ''<CertificationSig><ApprovalSignature_Page1><ApprovalSignature_Page2><ApprovalSignature_Page3>'')"
  by (simp_all add: engine_eval expired_world_fields signing_world_fields text_eval upt_rec)

text \<open>
  Claim C6 as stated fails in two places. When signing the second page fails,
  \<open>sign_pdf_multi_page\<close> raises but the output path, where nothing was, now holds the
  unsigned input. And with a certificate whose validity ended before the clock reading,
  the engine signs and writes the output.
\<close>

theorem failure_atomicity_counterexample:
  "fst (sign_pdf_multi_page flaky_libs ''in.pdf'' ''out.pdf'' signing_world)
     = Inl (LibraryError ''signing failed'')
   \<and> pdf_files signing_world ''out.pdf'' = None
   \<and> pdf_files (snd (sign_pdf_multi_page flaky_libs ''in.pdf'' ''out.pdf'' signing_world)) ''out.pdf''
       = Some [CHR 0x0C, CHR 0x0C, CHR 0x0C]
   \<and> (\<exists>key cert chain. load_certificate_data expired_world = Inr (key, cert, chain)
         \<and> not_valid_after cert < fst (now expired_world))
   \<and> fst (sign_pdf_multi_page_with_proper_mdp toy_libs ''in.pdf'' ''out.pdf'' expired_world) = Inr ''out.pdf''
   \<and> pdf_files expired_world ''out.pdf'' = None
   \<and> pdf_files (snd (sign_pdf_multi_page_with_proper_mdp toy_libs ''in.pdf'' ''out.pdf'' expired_world)) ''out.pdf''
       \<noteq> None"
proof -
  have "\<exists>key cert chain. load_certificate_data expired_world = Inr (key, cert, chain)
         \<and> not_valid_after cert < fst (now expired_world)"
    by (simp add: load_certificate_data_def expired_world_fields signing_world_fields
        p12_password_def now_def some_clock_def days_def)
  then show ?thesis
    by (simp add: flaky_run expired_run expired_world_fields signing_world_fields)
qed

theorem failed_signing_leaves_documents_witness:
  "fst (sign_pdf_multi_page_with_proper_mdp flaky_libs ''in.pdf'' ''out.pdf'' signing_world)
     = Inl (LibraryError ''signing failed'')
   \<and> pdf_files (snd (sign_pdf_multi_page_with_proper_mdp flaky_libs ''in.pdf'' ''out.pdf'' signing_world))
       = pdf_files signing_world
   \<and> fst (sign_pdf_multi_page flaky_libs ''in.pdf'' ''out.pdf'' signing_world)
       = Inl (LibraryError ''signing failed'')
   \<and> pdf_files (snd (sign_pdf_multi_page flaky_libs ''in.pdf'' ''out.pdf'' signing_world))
       = (pdf_files signing_world)(''out.pdf'' \<mapsto> [CHR 0x0C, CHR 0x0C, CHR 0x0C])
   \<and> load_certificate_data (empty_world some_clock some_entropy) = Inl FileNotFoundError
   \<and> sign_pdf_multi_page toy_libs ''in.pdf'' ''out.pdf'' (empty_world some_clock some_entropy)
       = (Inl FileNotFoundError, empty_world some_clock some_entropy)
   \<and> fst (sign_pdf_multi_page toy_libs ''in.pdf'' ''out.pdf'' signing_world) = Inr ''out.pdf''
   \<and> (\<exists>calls final.
          cms_calls (snd (sign_pdf_multi_page toy_libs ''in.pdf'' ''out.pdf'' signing_world)) = calls
        \<and> incremental_chain [CHR 0x0C, CHR 0x0C, CHR 0x0C] calls final
        \<and> dict_entries ''sigpage'' (tl calls) = [Some (IntV 0), Some (IntV 1), Some (IntV 2)]
        \<and> pdf_files (snd (sign_pdf_multi_page toy_libs ''in.pdf'' ''out.pdf'' signing_world)) ''out.pdf''
            = Some final)"
proof -
  define E where "E = empty_world some_clock some_entropy"
  define W1 where "W1 = snd (sign_pdf_multi_page_with_proper_mdp flaky_libs ''in.pdf'' ''out.pdf'' signing_world)"
  define W2 where "W2 = snd (sign_pdf_multi_page flaky_libs ''in.pdf'' ''out.pdf'' signing_world)"
  define W3 where "W3 = snd (sign_pdf_multi_page toy_libs ''in.pdf'' ''out.pdf'' signing_world)"
  have h1: "sign_pdf_multi_page_with_proper_mdp flaky_libs ''in.pdf'' ''out.pdf'' signing_world
              = (Inl (LibraryError ''signing failed''), W1)"
    using flaky_run(1) by (simp add: W1_def prod_eq_iff)
  have h2: "sign_pdf_multi_page flaky_libs ''in.pdf'' ''out.pdf'' signing_world
              = (Inl (LibraryError ''signing failed''), W2)"
    using flaky_run(2) by (simp add: W2_def prod_eq_iff)
  have h3: "endesive_available toy_libs \<and> load_certificate_data E = Inl FileNotFoundError"
    by (simp add: toy_libs_def load_certificate_data_def E_def empty_world_def)
  have f4: "fst (sign_pdf_multi_page toy_libs ''in.pdf'' ''out.pdf'' signing_world) = Inr ''out.pdf''"
    by (simp add: engine_eval signing_world_fields text_eval upt_rec)
  then have h4: "sign_pdf_multi_page toy_libs ''in.pdf'' ''out.pdf'' signing_world = (Inr ''out.pdf'', W3)"
    by (simp add: W3_def prod_eq_iff)
  have ld: "\<exists>k. load_certificate_data signing_world = Inr k"
    by (simp add: load_certificate_data_def signing_world_fields p12_password_def)
  have av: "endesive_available flaky_libs" by (simp add: flaky_libs_def toy_libs_def)
  note t1 = failed_signing_leaves_documents [of flaky_libs "''in.pdf''" "''out.pdf''" signing_world
        "LibraryError ''signing failed''" W1 W2 "''out.pdf''" W3]
  have a1: "pdf_files W1 = pdf_files signing_world"
    by (rule t1 [THEN conjunct1, rule_format, OF h1])
  have a2: "pdf_files W2 = (pdf_files signing_world)(''out.pdf'' \<mapsto> [CHR 0x0C, CHR 0x0C, CHR 0x0C])"
    using t1 [THEN conjunct2, THEN conjunct1, rule_format, OF h2] ld av
    by (simp add: signing_world_fields)
  note t3 = failed_signing_leaves_documents [of toy_libs "''in.pdf''" "''out.pdf''" E
        FileNotFoundError E E "''out.pdf''" E]
  have a3: "sign_pdf_multi_page toy_libs ''in.pdf'' ''out.pdf'' E = (Inl FileNotFoundError, E)"
    by (rule t3 [THEN conjunct2, THEN conjunct2, THEN conjunct1, rule_format, OF h3, THEN conjunct2])
  note t4 = failed_signing_leaves_documents [of toy_libs "''in.pdf''" "''out.pdf''" signing_world
        FileNotFoundError W3 W3 "''out.pdf''" W3]
  from t4 [THEN conjunct2, THEN conjunct2, THEN conjunct2, rule_format, OF disjI1 [OF h4]]
  obtain pdf_data_in calls final n where c:
    "pdf_files signing_world ''in.pdf'' = Some pdf_data_in"
    "cms_calls W3 = cms_calls signing_world @ calls"
    "length calls = Suc n"
    "incremental_chain pdf_data_in calls final"
    "dict_entries ''sigpage'' (tl calls) = map (\<lambda>k. Some (IntV (int k))) [0..<n]"
    "pdf_files W3 ''out.pdf'' = Some final"
    by (elim exE conjE) (rule that; assumption)
  have "length (cms_calls W3) = 4"
    by (simp add: W3_def engine_eval signing_world_fields text_eval upt_rec)
  with c(2,3) have n: "n = 3" by (simp add: signing_world_fields)
  from c(1) have d: "pdf_data_in = [CHR 0x0C, CHR 0x0C, CHR 0x0C]" by (simp add: signing_world_fields)
  have "cms_calls W3 = calls" using c(2) by (simp add: signing_world_fields)
  moreover have "incremental_chain [CHR 0x0C, CHR 0x0C, CHR 0x0C] calls final" using c(4) d by simp
  moreover have "dict_entries ''sigpage'' (tl calls) = [Some (IntV 0), Some (IntV 1), Some (IntV 2)]"
    using c(5) n by (simp add: upt_rec)
  ultimately have a4: "\<exists>calls final. cms_calls W3 = calls
        \<and> incremental_chain [CHR 0x0C, CHR 0x0C, CHR 0x0C] calls final
        \<and> dict_entries ''sigpage'' (tl calls) = [Some (IntV 0), Some (IntV 1), Some (IntV 2)]
        \<and> pdf_files W3 ''out.pdf'' = Some final"
    using c(6) by blast
  show ?thesis
    using flaky_run(1) a1 flaky_run(2) a2 h3 [THEN conjunct2] a3 f4 a4
    unfolding W1_def W2_def W3_def E_def by (intro conjI)
qed

section \<open>Properties of the verifiers\<close>














section \<open>Signing, then verifying\<close>





section \<open>Signing date and visible text\<close>



















end
